theory Spec2Isabelle
  imports Complex_Main
begin

section \<open>JavaScript values, the host, and the observable trace\<close>

text \<open>
  Numbers are finite doubles read as reals, plus NaN (the infinities and the sign of
  zero play no part in this file's code). Objects are ordinary objects with own data
  properties and the default conversions of Object.prototype (object literals, MediaError
  and Error instances). A function value is an opaque callback: \<open>JFun name thr\<close>
  is a function that, when called, either returns (\<open>thr = None\<close>) or throws the
  value \<open>e\<close> (\<open>thr = Some e\<close>); every call is recorded in the trace. What a
  callback does to the handles on its own account (calling back into the library) is
  outside the model.
\<close>

datatype jsnum = NaN | Num real

datatype jsval =
    JUndefined
  | JNull
  | JBool bool
  | JNum jsnum
  | JStr string
  | JObj "(string \<times> jsval) list"
  | JFun string "jsval option"

datatype completion = Returned | Thrown jsval

text \<open>The success argument handed to exec: null, a caller's function, or one of the
  closures the executor-backed file builds around the handle \<open>me\<close>.\<close>

datatype exec_success =
    No_success
  | User_success jsval
  | Stop_success nat
  | SeekTo_success nat
  | Position_success nat jsval
  | Db_success nat jsval
  | Message_channel

text \<open>
  The trace lists, in order, what the code does to the outside and to its own
  dispatcher: each call \<open>MediaRec.onStatus(id, msgType, value)\<close>, each call of a
  callback with its arguments, each line written with console.error, each use of the
  Audio element, and each request handed to exec.
\<close>

datatype event =
    OnStatus jsval jsval jsval
  | Invoked string "jsval list"
  | Console_error string
  | Audio_play
  | Audio_pause
  | Audio_set_currentTime jsnum
  | Audio_set_volume jsval
  | Exec exec_success jsval string string "jsval list"

text \<open>
  What the file takes from its host and does not define: whether console.error exists,
  the conversions of strings to numbers and of other values to strings, the platform
  identifier, the MediaError constants, and how the Audio element behaves (whether its constructor, its
  play and pause methods and its currentTime setter throw).
\<close>

record host =
  console_error :: bool
  StringToNumber :: "string \<Rightarrow> jsnum"
  ToString :: "jsval \<Rightarrow> string"
  platformId :: string
  MEDIA_ERR_ABORTED :: jsval
  MEDIA_ERR_SRC_NOT_SUPPORTED :: jsval
  new_Audio_throws :: "jsval option"
  play_throws :: "jsval option"
  pause_throws :: "jsval option"
  set_currentTime_throws :: "jsval option"
  set_volume_throws :: "jsval \<Rightarrow> jsval option"

record audio_node =
  node_src :: jsval
  currentTime :: jsnum
  volume :: jsval

text \<open>A MediaRec object. \<open>node = None\<close> is a handle without a node property
  (never assigned, or deleted by release); the executor-backed file never sets it.\<close>

record MediaRec =
  id :: string
  src :: jsval
  successCallback :: jsval
  errorCallback :: jsval
  statusCallback :: jsval
  duration :: jsval
  position :: jsval
  db :: jsval
  node :: "audio_node option"

text \<open>
  The state: the objects allocated so far (a handle is its index), the own properties
  of the module's \<open>mediaObjects\<close> table from identifiers to handles, and the trace
  of observable calls. The table is a plain object literal, so a read of a key it does
  not own goes on to Object.prototype; the dispatcher can therefore reach the built-in
  objects found there and assign \<open>_duration\<close> and \<open>_position\<close> on them.
  \<open>stray_duration\<close> and \<open>stray_position\<close> hold these assignments, by the
  inherited key under which the built-in object was found; the key \<open>__proto__\<close>
  is Object.prototype itself, whose properties every later read of the table sees.
\<close>

record world =
  objects :: "MediaRec list"
  mediaObjects :: "string \<rightharpoonup> nat"
  stray_duration :: "string \<rightharpoonup> jsval"
  stray_position :: "string \<rightharpoonup> jsval"
  trace :: "event list"

definition TypeError :: jsval where
  "TypeError = JObj [(''name'', JStr ''TypeError'')]"

definition emit :: "event \<Rightarrow> world \<Rightarrow> world" where
  "emit e w = w\<lparr>trace := trace w @ [e]\<rparr>"

fun truthy :: "jsval \<Rightarrow> bool" where
  "truthy JUndefined = False"
| "truthy JNull = False"
| "truthy (JBool b) = b"
| "truthy (JNum NaN) = False"
| "truthy (JNum (Num r)) = (r \<noteq> 0)"
| "truthy (JStr s) = (s \<noteq> [])"
| "truthy (JObj fs) = True"
| "truthy (JFun n t) = True"

fun ToNumber :: "host \<Rightarrow> jsval \<Rightarrow> jsnum" where
  "ToNumber h JUndefined = NaN"
| "ToNumber h JNull = Num 0"
| "ToNumber h (JBool b) = Num (if b then 1 else 0)"
| "ToNumber h (JNum n) = n"
| "ToNumber h (JStr s) = StringToNumber h s"
| "ToNumber h (JObj fs) = NaN"
| "ToNumber h (JFun n t) = NaN"

text \<open>\<open>a === b\<close> (objects and functions are compared by their content here), and
  \<open>x === n\<close>, \<open>x == n\<close> for a number literal \<open>n\<close>.\<close>

definition strict_eq :: "jsval \<Rightarrow> jsval \<Rightarrow> bool" where
  "strict_eq a b = (a = b \<and> a \<noteq> JNum NaN)"

definition strict_eq_num :: "jsval \<Rightarrow> real \<Rightarrow> bool" where
  "strict_eq_num v n = strict_eq v (JNum (Num n))"

fun loose_eq_num :: "host \<Rightarrow> jsval \<Rightarrow> real \<Rightarrow> bool" where
  "loose_eq_num h (JNum m) n = (m = Num n)"
| "loose_eq_num h (JStr s) n = (StringToNumber h s = Num n)"
| "loose_eq_num h (JBool b) n = ((if b then 1 else 0) = n)"
| "loose_eq_num h v n = False"

text \<open>\<open>x == 'literal'\<close>: only the string itself is equal (a number or boolean is
  compared with the literal's number value, NaN for 'status').\<close>

definition loose_eq_status :: "jsval \<Rightarrow> bool" where
  "loose_eq_status v = (v = JStr ''status'')"

text \<open>Property read \<open>o.p\<close>: null and undefined throw, a missing property is undefined.\<close>

fun get_prop :: "jsval \<Rightarrow> string \<Rightarrow> jsval + jsval" where
  "get_prop JUndefined p = Inl TypeError"
| "get_prop JNull p = Inl TypeError"
| "get_prop (JObj fs) p = (case map_of fs p of Some v \<Rightarrow> Inr v | None \<Rightarrow> Inr JUndefined)"
| "get_prop v p = Inr JUndefined"

text \<open>Calling a value: only functions can be called.\<close>

fun call_js :: "jsval \<Rightarrow> jsval list \<Rightarrow> world \<Rightarrow> completion \<times> world" where
  "call_js (JFun n t) args w =
     ((case t of None \<Rightarrow> Returned | Some e \<Rightarrow> Thrown e), emit (Invoked n args) w)"
| "call_js v args w = (Thrown TypeError, w)"

text \<open>\<open>f && f(args)\<close> as a statement.\<close>

definition call_if_present :: "jsval \<Rightarrow> jsval list \<Rightarrow> world \<Rightarrow> completion \<times> world" where
  "call_if_present f args w = (if truthy f then call_js f args w else (Returned, w))"

definition console_error_log :: "host \<Rightarrow> string \<Rightarrow> world \<Rightarrow> world" where
  "console_error_log h d w = (if console_error h then emit (Console_error d) w else w)"

text \<open>A value as a string, in a concatenation or as a property key.\<close>

definition key_of :: "host \<Rightarrow> jsval \<Rightarrow> string" where
  "key_of h v = (case v of JStr s \<Rightarrow> s | _ \<Rightarrow> ToString h v)"

text \<open>
  What a read \<open>mediaObjects[id]\<close> can find: a handle (an own property of the
  table), the built-in object that Object.prototype holds under one of its standard
  keys (Object under \<open>constructor\<close>, a method function, Object.prototype itself
  under \<open>__proto__\<close>), or the value that an earlier dispatch has put on
  Object.prototype as \<open>_duration\<close> or \<open>_position\<close>. \<open>None\<close> is undefined.
\<close>

datatype media = Handle nat | Builtin string | Stray string jsval

definition Object_prototype_keys :: "string list" where
  "Object_prototype_keys =
     [''constructor'', ''__defineGetter__'', ''__defineSetter__'', ''hasOwnProperty'',
      ''__lookupGetter__'', ''__lookupSetter__'', ''isPrototypeOf'', ''propertyIsEnumerable'',
      ''toString'', ''valueOf'', ''__proto__'', ''toLocaleString'']"

definition own_handle :: "world \<Rightarrow> string \<Rightarrow> nat option" where
  "own_handle w k =
     (case mediaObjects w k of
        None \<Rightarrow> None
      | Some r \<Rightarrow> (if r < length (objects w) then Some r else None))"

definition lookup_media :: "host \<Rightarrow> world \<Rightarrow> jsval \<Rightarrow> media option" where
  "lookup_media h w i =
     (case own_handle w (key_of h i) of
        Some r \<Rightarrow> Some (Handle r)
      | None \<Rightarrow>
          if key_of h i \<in> set Object_prototype_keys then Some (Builtin (key_of h i))
          else if key_of h i = ''_duration''
          then map_option (Stray ''_duration'') (stray_duration w ''__proto__'')
          else if key_of h i = ''_position''
          then map_option (Stray ''_position'') (stray_position w ''__proto__'')
          else None)"

text \<open>The test \<open>if (media)\<close>: objects and functions are truthy, a stray value as
  its kind says.\<close>

fun media_truthy :: "media \<Rightarrow> bool" where
  "media_truthy (Handle r) = True"
| "media_truthy (Builtin k) = True"
| "media_truthy (Stray k x) = truthy x"

definition found_media :: "host \<Rightarrow> world \<Rightarrow> jsval \<Rightarrow> media option" where
  "found_media h w i =
     (case lookup_media h w i of
        None \<Rightarrow> None
      | Some media \<Rightarrow> (if media_truthy media then Some media else None))"

text \<open>
  The reads \<open>media.statusCallback\<close>, \<open>media.successCallback\<close> and
  \<open>media.errorCallback\<close>. A handle has the three as own properties. No built-in
  object has a property of these names. A stray value has one only when it is an object
  with such a field.
\<close>

definition field_of :: "jsval \<Rightarrow> string \<Rightarrow> jsval" where
  "field_of x p =
     (case x of
        JObj fs \<Rightarrow> (case map_of fs p of Some y \<Rightarrow> y | None \<Rightarrow> JUndefined)
      | _ \<Rightarrow> JUndefined)"

fun media_statusCallback :: "world \<Rightarrow> media \<Rightarrow> jsval" where
  "media_statusCallback w (Handle r) = statusCallback (objects w ! r)"
| "media_statusCallback w (Builtin k) = JUndefined"
| "media_statusCallback w (Stray k x) = field_of x ''statusCallback''"

fun media_successCallback :: "world \<Rightarrow> media \<Rightarrow> jsval" where
  "media_successCallback w (Handle r) = successCallback (objects w ! r)"
| "media_successCallback w (Builtin k) = JUndefined"
| "media_successCallback w (Stray k x) = field_of x ''successCallback''"

fun media_errorCallback :: "world \<Rightarrow> media \<Rightarrow> jsval" where
  "media_errorCallback w (Handle r) = errorCallback (objects w ! r)"
| "media_errorCallback w (Builtin k) = JUndefined"
| "media_errorCallback w (Stray k x) = field_of x ''errorCallback''"

definition this_object :: "world \<Rightarrow> nat \<Rightarrow> MediaRec option" where
  "this_object w r = (if r < length (objects w) then Some (objects w ! r) else None)"

definition update_object :: "nat \<Rightarrow> (MediaRec \<Rightarrow> MediaRec) \<Rightarrow> world \<Rightarrow> world" where
  "update_object r f w = w\<lparr>objects := (objects w)[r := f (objects w ! r)]\<rparr>"

text \<open>
  The assignments \<open>media._duration = value\<close> and \<open>media._position = value\<close>.
  On a handle the field is set. On a built-in object the property is created on that
  object. On a stray value: an object gets the field, and stays where Object.prototype
  holds it; an assignment to a number, string or boolean is dropped (the files are not
  in strict mode), and one to a caller's function leaves nothing this code reads.
\<close>

definition set_field :: "(string \<times> jsval) list \<Rightarrow> string \<Rightarrow> jsval \<Rightarrow> (string \<times> jsval) list" where
  "set_field fs p v =
     (if p \<in> fst ` set fs then map (\<lambda>(k, y). if k = p then (k, v) else (k, y)) fs
      else fs @ [(p, v)])"

definition store_stray :: "string \<Rightarrow> jsval \<Rightarrow> world \<Rightarrow> world" where
  "store_stray k x w =
     (if k = ''_duration'' then w\<lparr>stray_duration := (stray_duration w)(''__proto__'' \<mapsto> x)\<rparr>
      else w\<lparr>stray_position := (stray_position w)(''__proto__'' \<mapsto> x)\<rparr>)"

definition assign_stray :: "string \<Rightarrow> jsval \<Rightarrow> string \<Rightarrow> jsval \<Rightarrow> world \<Rightarrow> world" where
  "assign_stray k x p v w =
     (case x of JObj fs \<Rightarrow> store_stray k (JObj (set_field fs p v)) w | _ \<Rightarrow> w)"

fun assign_duration :: "media \<Rightarrow> jsval \<Rightarrow> world \<Rightarrow> world" where
  "assign_duration (Handle r) v w = update_object r (\<lambda>m. m\<lparr>duration := v\<rparr>) w"
| "assign_duration (Builtin k) v w = w\<lparr>stray_duration := (stray_duration w)(k \<mapsto> v)\<rparr>"
| "assign_duration (Stray k x) v w = assign_stray k x ''_duration'' v w"

fun assign_position :: "media \<Rightarrow> jsval \<Rightarrow> world \<Rightarrow> world" where
  "assign_position (Handle r) v w = update_object r (\<lambda>m. m\<lparr>position := v\<rparr>) w"
| "assign_position (Builtin k) v w = w\<lparr>stray_position := (stray_position w)(k \<mapsto> v)\<rparr>"
| "assign_position (Stray k x) v w = assign_stray k x ''_position'' v w"

section \<open>Constants of both files\<close>

definition MEDIA_STATE :: real where "MEDIA_STATE = 1"
definition MEDIA_DURATION :: real where "MEDIA_DURATION = 2"
definition MEDIA_POSITION :: real where "MEDIA_POSITION = 3"
definition MEDIA_ERROR :: real where "MEDIA_ERROR = 9"

definition MEDIA_NONE :: real where "MEDIA_NONE = 0"
definition MEDIA_STARTING :: real where "MEDIA_STARTING = 1"
definition MEDIA_RUNNING :: real where "MEDIA_RUNNING = 2"
definition MEDIA_PAUSED :: real where "MEDIA_PAUSED = 3"
definition MEDIA_STOPPED :: real where "MEDIA_STOPPED = 4"

definition num :: "real \<Rightarrow> jsval" where
  "num r = JNum (Num r)"

definition arith_div :: "jsnum \<Rightarrow> real \<Rightarrow> jsnum" where
  "arith_div a d = (case a of NaN \<Rightarrow> NaN | Num r \<Rightarrow> Num (r / d))"

section \<open>Argument check of the constructors\<close>

text \<open>
  Modelled from the spec: cordova/argscheck is not part of the sources. checkArgs walks
  the format string; a lower-case letter requires the type (s a string, f a function),
  an upper-case letter also accepts null and undefined, a missing argument is undefined,
  and a mismatch throws a TypeError.
\<close>

definition nth_arg :: "jsval list \<Rightarrow> nat \<Rightarrow> jsval" where
  "nth_arg args i = (if i < length args then args ! i else JUndefined)"

fun is_JStr :: "jsval \<Rightarrow> bool" where
  "is_JStr (JStr s) = True"
| "is_JStr v = False"

fun is_JFun :: "jsval \<Rightarrow> bool" where
  "is_JFun (JFun n t) = True"
| "is_JFun v = False"

definition nullish :: "jsval \<Rightarrow> bool" where
  "nullish v = (v = JNull \<or> v = JUndefined)"

definition arg_ok :: "char \<Rightarrow> jsval \<Rightarrow> bool" where
  "arg_ok c v =
     (if c = CHR ''s'' then is_JStr v
      else if c = CHR ''S'' then nullish v \<or> is_JStr v
      else if c = CHR ''f'' then is_JFun v
      else if c = CHR ''F'' then nullish v \<or> is_JFun v
      else c = CHR ''*'')"

definition checkArgs :: "string \<Rightarrow> jsval list \<Rightarrow> bool" where
  "checkArgs spec args = list_all (\<lambda>i. arg_ok (spec ! i) (nth_arg args i)) [0..<length spec]"

section \<open>The standalone (browser) file\<close>

definition onStatus_sa :: "host \<Rightarrow> jsval \<Rightarrow> jsval \<Rightarrow> jsval \<Rightarrow> world \<Rightarrow> completion \<times> world" where
  "onStatus_sa h i msgType v w0 =
     (let w = emit (OnStatus i msgType v) w0 in
      case found_media h w i of
        Some media \<Rightarrow>
          if strict_eq_num msgType MEDIA_STATE then
            (case call_if_present (media_statusCallback w media) [v] w of
               (Thrown e, w1) \<Rightarrow> (Thrown e, w1)
             | (Returned, w1) \<Rightarrow>
                 if strict_eq_num v MEDIA_STOPPED
                 then call_if_present (media_successCallback w1 media) [] w1
                 else (Returned, w1))
          else if strict_eq_num msgType MEDIA_DURATION then
            (Returned, assign_duration media v w)
          else if strict_eq_num msgType MEDIA_ERROR then
            call_if_present (media_errorCallback w media) [v] w
          else if strict_eq_num msgType MEDIA_POSITION then
            (Returned, assign_position media (JNum (ToNumber h v)) w)
          else (Returned,
                console_error_log h (''Unhandled MediaRec.onStatus :: '' @ key_of h msgType) w)
      | None \<Rightarrow>
          (Returned,
           console_error_log h
             (''Received MediaRec.onStatus callback for unknown media :: '' @ key_of h i) w))"

text \<open>createNode: \<open>new Audio()\<close> may throw; the listeners are the functions
  \<open>node_on...\<close> below; the source is copied when it is truthy.\<close>

definition createNode :: "host \<Rightarrow> MediaRec \<Rightarrow> jsval + audio_node" where
  "createNode h media =
     (case new_Audio_throws h of
        Some e \<Rightarrow> Inl e
      | None \<Rightarrow>
          Inr \<lparr>node_src = (if truthy (src media) then src media else JStr []),
               currentTime = Num 0, volume = num 1\<rparr>)"

definition node_event :: "host \<Rightarrow> nat \<Rightarrow> real \<Rightarrow> jsval \<Rightarrow> world \<Rightarrow> completion \<times> world" where
  "node_event h media msgType v w =
     (case this_object w media of
        None \<Rightarrow> (Thrown TypeError, w)
      | Some m \<Rightarrow> onStatus_sa h (JStr (id m)) (num msgType) v w)"

definition node_onloadstart :: "host \<Rightarrow> nat \<Rightarrow> world \<Rightarrow> completion \<times> world" where
  "node_onloadstart h media w = node_event h media MEDIA_STATE (num MEDIA_STARTING) w"

definition node_onplaying :: "host \<Rightarrow> nat \<Rightarrow> world \<Rightarrow> completion \<times> world" where
  "node_onplaying h media w = node_event h media MEDIA_STATE (num MEDIA_RUNNING) w"

definition node_ondurationchange :: "host \<Rightarrow> nat \<Rightarrow> jsval \<Rightarrow> world \<Rightarrow> completion \<times> world" where
  "node_ondurationchange h media d w =
     node_event h media MEDIA_DURATION (if truthy d then d else num (- 1)) w"

text \<open>node.onerror, with \<open>err\<close> the event's \<open>e.target.error\<close>.\<close>

definition node_onerror :: "host \<Rightarrow> nat \<Rightarrow> jsval \<Rightarrow> world \<Rightarrow> completion \<times> world" where
  "node_onerror h media err w =
     (case get_prop err ''code'' of
        Inl e \<Rightarrow> (Thrown e, w)
      | Inr c \<Rightarrow>
          node_event h media MEDIA_ERROR
            (if strict_eq c (MEDIA_ERR_SRC_NOT_SUPPORTED h)
             then JObj [(''code'', MEDIA_ERR_ABORTED h)] else err) w)"

definition node_onended :: "host \<Rightarrow> nat \<Rightarrow> world \<Rightarrow> completion \<times> world" where
  "node_onended h media w = node_event h media MEDIA_STATE (num MEDIA_STOPPED) w"

text \<open>Sequencing and try/catch on completions.\<close>

definition and_then :: "completion \<times> world \<Rightarrow> (world \<Rightarrow> completion \<times> world) \<Rightarrow> completion \<times> world" where
  "and_then r k = (case r of (Thrown e, w) \<Rightarrow> (Thrown e, w) | (Returned, w) \<Rightarrow> k w)"

definition try_catch :: "completion \<times> world \<Rightarrow> (jsval \<Rightarrow> world \<Rightarrow> completion \<times> world) \<Rightarrow> completion \<times> world" where
  "try_catch r handler = (case r of (Thrown e, w) \<Rightarrow> handler e w | (Returned, w) \<Rightarrow> (Returned, w))"

definition ABORTED_error :: "host \<Rightarrow> jsval" where
  "ABORTED_error h = JObj [(''code'', MEDIA_ERR_ABORTED h)]"

text \<open>
  The constructor, called with the argument list and the string createUUID returns
  (hexadecimal digits and dashes, so the table gets an own property under it).
  The new object is the next index of \<open>objects\<close>.
\<close>

definition new_handle :: "world \<Rightarrow> nat" where
  "new_handle w = length (objects w)"

definition construct :: "string \<Rightarrow> jsval list \<Rightarrow> MediaRec" where
  "construct uuid args =
     \<lparr>id = uuid, src = nth_arg args 0, successCallback = nth_arg args 1,
      errorCallback = nth_arg args 2, statusCallback = nth_arg args 3,
      duration = num (- 1), position = num (- 1), db = JUndefined, node = None\<rparr>"

definition register :: "string \<Rightarrow> jsval list \<Rightarrow> world \<Rightarrow> world" where
  "register uuid args w =
     w\<lparr>objects := objects w @ [construct uuid args],
       mediaObjects := (mediaObjects w)(uuid \<mapsto> new_handle w)\<rparr>"

definition assign_node :: "host \<Rightarrow> nat \<Rightarrow> world \<Rightarrow> completion \<times> world" where
  "assign_node h this w =
     (case createNode h (objects w ! this) of
        Inl err \<Rightarrow> onStatus_sa h (JStr (id (objects w ! this))) (num MEDIA_ERROR) (ABORTED_error h) w
      | Inr n \<Rightarrow> (Returned, update_object this (\<lambda>m. m\<lparr>node := Some n\<rparr>) w))"

definition MediaRec_sa :: "host \<Rightarrow> jsval list \<Rightarrow> string \<Rightarrow> world \<Rightarrow> completion \<times> world" where
  "MediaRec_sa h args uuid w =
     (if \<not> checkArgs ''SFFF'' args then (Thrown TypeError, w)
      else and_then
             (onStatus_sa h (JStr uuid) (num MEDIA_STATE) (num MEDIA_STARTING) (register uuid args w))
             (assign_node h (new_handle w)))"

text \<open>A method called on something that is not a handle throws, as a call on
  undefined does.\<close>

definition with_this :: "nat \<Rightarrow> world \<Rightarrow> (MediaRec \<Rightarrow> completion \<times> world) \<Rightarrow> completion \<times> world" where
  "with_this this w body = (case this_object w this of None \<Rightarrow> (Thrown TypeError, w) | Some m \<Rightarrow> body m)"

definition status_of :: "host \<Rightarrow> nat \<Rightarrow> real \<Rightarrow> jsval \<Rightarrow> world \<Rightarrow> completion \<times> world" where
  "status_of h this msgType v w = with_this this w (\<lambda>m. onStatus_sa h (JStr (id m)) (num msgType) v w)"

definition play_sa :: "host \<Rightarrow> nat \<Rightarrow> world \<Rightarrow> completion \<times> world" where
  "play_sa h this w =
     with_this this w (\<lambda>m.
       and_then (if node m = None then assign_node h this w else (Returned, w))
         (\<lambda>w1. case node (objects w1 ! this) of
                  None \<Rightarrow> (Thrown TypeError, w1)
                | Some n \<Rightarrow> (case play_throws h of
                              Some e \<Rightarrow> (Thrown e, w1)
                            | None \<Rightarrow> (Returned, emit Audio_play w1))))"

text \<open>\<open>this.node.pause()\<close>: without a node the property read throws.\<close>

definition node_pause :: "host \<Rightarrow> nat \<Rightarrow> world \<Rightarrow> completion \<times> world" where
  "node_pause h this w =
     with_this this w (\<lambda>m.
       case node m of
         None \<Rightarrow> (Thrown TypeError, w)
       | Some n \<Rightarrow> (case pause_throws h of
                     Some e \<Rightarrow> (Thrown e, w)
                   | None \<Rightarrow> (Returned, emit Audio_pause w)))"

definition pause_sa :: "host \<Rightarrow> nat \<Rightarrow> world \<Rightarrow> completion \<times> world" where
  "pause_sa h this w =
     try_catch
       (and_then (node_pause h this w) (status_of h this MEDIA_STATE (num MEDIA_PAUSED)))
       (\<lambda>err. status_of h this MEDIA_ERROR err)"

text \<open>\<open>this.node.currentTime = milliseconds / 1000\<close>: the setter rejects a value
  that is not finite, and the element may reject the seek.\<close>

definition node_set_currentTime :: "host \<Rightarrow> nat \<Rightarrow> jsnum \<Rightarrow> world \<Rightarrow> completion \<times> world" where
  "node_set_currentTime h this t w =
     with_this this w (\<lambda>m.
       case node m of
         None \<Rightarrow> (Thrown TypeError, w)
       | Some n \<Rightarrow>
           if t = NaN then (Thrown TypeError, w)
           else (case set_currentTime_throws h of
                   Some e \<Rightarrow> (Thrown e, w)
                 | None \<Rightarrow>
                     (Returned,
                      emit (Audio_set_currentTime t)
                        (update_object this (\<lambda>m. m\<lparr>node := Some (n\<lparr>currentTime := t\<rparr>)\<rparr>) w))))"

definition seekTo_sa :: "host \<Rightarrow> nat \<Rightarrow> jsval \<Rightarrow> world \<Rightarrow> completion \<times> world" where
  "seekTo_sa h this milliseconds w =
     try_catch
       (node_set_currentTime h this (arith_div (ToNumber h milliseconds) 1000) w)
       (\<lambda>err. status_of h this MEDIA_ERROR err)"

definition stop_sa :: "host \<Rightarrow> nat \<Rightarrow> world \<Rightarrow> completion \<times> world" where
  "stop_sa h this w =
     try_catch
       (and_then (pause_sa h this w) (\<lambda>w1.
        and_then (seekTo_sa h this (num 0) w1)
          (status_of h this MEDIA_STATE (num MEDIA_STOPPED))))
       (\<lambda>err. status_of h this MEDIA_ERROR err)"

definition getDuration :: "world \<Rightarrow> nat \<Rightarrow> jsval + jsval" where
  "getDuration w this = (case this_object w this of None \<Rightarrow> Inl TypeError | Some m \<Rightarrow> Inr (duration m))"

definition getCurrentPosition_sa :: "host \<Rightarrow> nat \<Rightarrow> jsval \<Rightarrow> jsval \<Rightarrow> world \<Rightarrow> completion \<times> world" where
  "getCurrentPosition_sa h this success fail w =
     with_this this w (\<lambda>m.
       try_catch
         (case node m of
            None \<Rightarrow> (Thrown TypeError, w)
          | Some n \<Rightarrow>
              and_then (status_of h this MEDIA_POSITION (JNum (currentTime n)) w)
                (call_js success [JNum (currentTime n)]))
         (\<lambda>err. call_js fail [err]))"

definition startRecord_sa :: "host \<Rightarrow> nat \<Rightarrow> world \<Rightarrow> completion \<times> world" where
  "startRecord_sa h this w = status_of h this MEDIA_ERROR (JStr ''Not supported'') w"

definition stopRecord_sa :: "host \<Rightarrow> nat \<Rightarrow> world \<Rightarrow> completion \<times> world" where
  "stopRecord_sa h this w = status_of h this MEDIA_ERROR (JStr ''Not supported'') w"

definition release_sa :: "nat \<Rightarrow> world \<Rightarrow> completion \<times> world" where
  "release_sa this w =
     with_this this w (\<lambda>m. (Returned, update_object this (\<lambda>m. m\<lparr>node := None\<rparr>) w))"

definition setVolume_sa :: "host \<Rightarrow> nat \<Rightarrow> jsval \<Rightarrow> world \<Rightarrow> completion \<times> world" where
  "setVolume_sa h this v w =
     with_this this w (\<lambda>m.
       case node m of
         None \<Rightarrow> (Thrown TypeError, w)
       | Some n \<Rightarrow> (case set_volume_throws h v of
                     Some e \<Rightarrow> (Thrown e, w)
                   | None \<Rightarrow>
                       (Returned,
                        emit (Audio_set_volume v)
                          (update_object this (\<lambda>m. m\<lparr>node := Some (n\<lparr>volume := v\<rparr>)\<rparr>) w))))"

text \<open>
  The recording operations of the interface, called by name on a handle of this file.
  Its prototype defines startRecord and stopRecord only: the other three names are
  undefined there, and calling undefined throws a TypeError.
\<close>

datatype recording_op =
    StartRecord | StopRecord | PauseRecord | ResumeRecord | StartRecordWithCompression jsval

fun record_sa :: "host \<Rightarrow> nat \<Rightarrow> recording_op \<Rightarrow> world \<Rightarrow> completion \<times> world" where
  "record_sa h this StartRecord w = startRecord_sa h this w"
| "record_sa h this StopRecord w = stopRecord_sa h this w"
| "record_sa h this op w = (Thrown TypeError, w)"

section \<open>The executor-backed file\<close>

text \<open>
  \<open>exec(success, fail, service, action, args)\<close> hands a request to the native side
  and returns; the request is recorded in the trace. What the executor does with it is
  not this file's code: when it answers, it calls the success function with a value
  (\<open>exec_succeeds\<close>) or the failure function with an error (\<open>exec_fails\<close>).
\<close>

definition exec :: "exec_success \<Rightarrow> jsval \<Rightarrow> string \<Rightarrow> string \<Rightarrow> jsval list \<Rightarrow> world \<Rightarrow> completion \<times> world" where
  "exec success fail service action args w = (Returned, emit (Exec success fail service action args) w)"

definition onStatus_ex :: "host \<Rightarrow> jsval \<Rightarrow> jsval \<Rightarrow> jsval \<Rightarrow> world \<Rightarrow> completion \<times> world" where
  "onStatus_ex h i msgType v w0 =
     (let w = emit (OnStatus i msgType v) w0 in
      case found_media h w i of
        Some media \<Rightarrow>
          if strict_eq_num msgType MEDIA_STATE then
            (case call_if_present (media_statusCallback w media) [v] w of
               (Thrown e, w1) \<Rightarrow> (Thrown e, w1)
             | (Returned, w1) \<Rightarrow>
                 if loose_eq_num h v MEDIA_STOPPED
                 then call_if_present (media_successCallback w1 media) [] w1
                 else (Returned, w1))
          else if strict_eq_num msgType MEDIA_DURATION then
            (Returned, assign_duration media v w)
          else if strict_eq_num msgType MEDIA_ERROR then
            call_if_present (media_errorCallback w media) [v] w
          else if strict_eq_num msgType MEDIA_POSITION then
            (Returned, assign_position media (JNum (ToNumber h v)) w)
          else (Returned,
                console_error_log h (''Unhandled MediaRec.onStatus :: '' @ key_of h msgType) w)
      | None \<Rightarrow>
          (Returned,
           console_error_log h
             (''Received MediaRec.onStatus callback for unknown media :: '' @ key_of h i) w))"

definition MediaRec_ex :: "jsval list \<Rightarrow> string \<Rightarrow> world \<Rightarrow> completion \<times> world" where
  "MediaRec_ex args uuid w =
     (if \<not> checkArgs ''sFFF'' args then (Thrown TypeError, w)
      else exec No_success (nth_arg args 2) ''MediaRec'' ''create'' [JStr uuid, nth_arg args 0]
             (register uuid args w))"

text \<open>MediaRec.get: what the table read gives for the identifier.\<close>

definition get_ex :: "host \<Rightarrow> world \<Rightarrow> jsval \<Rightarrow> media option" where
  "get_ex h w i = lookup_media h w i"

definition play_ex :: "nat \<Rightarrow> jsval \<Rightarrow> world \<Rightarrow> completion \<times> world" where
  "play_ex this options w =
     with_this this w (\<lambda>m.
       exec No_success JNull ''MediaRec'' ''startPlayingAudio'' [JStr (id m), src m, options] w)"

definition stop_ex :: "nat \<Rightarrow> world \<Rightarrow> completion \<times> world" where
  "stop_ex this w =
     with_this this w (\<lambda>m.
       exec (Stop_success this) (errorCallback m) ''MediaRec'' ''stopPlayingAudio'' [JStr (id m)] w)"

definition seekTo_ex :: "nat \<Rightarrow> jsval \<Rightarrow> world \<Rightarrow> completion \<times> world" where
  "seekTo_ex this milliseconds w =
     with_this this w (\<lambda>m.
       exec (SeekTo_success this) (errorCallback m) ''MediaRec'' ''seekToAudio''
         [JStr (id m), milliseconds] w)"

definition pause_ex :: "nat \<Rightarrow> world \<Rightarrow> completion \<times> world" where
  "pause_ex this w =
     with_this this w (\<lambda>m.
       exec No_success (errorCallback m) ''MediaRec'' ''pausePlayingAudio'' [JStr (id m)] w)"

definition getCurrentPosition_ex :: "nat \<Rightarrow> jsval \<Rightarrow> jsval \<Rightarrow> world \<Rightarrow> completion \<times> world" where
  "getCurrentPosition_ex this success fail w =
     with_this this w (\<lambda>m.
       exec (Position_success this success) fail ''MediaRec'' ''getCurrentPositionAudio''
         [JStr (id m)] w)"

definition startRecord_ex :: "nat \<Rightarrow> world \<Rightarrow> completion \<times> world" where
  "startRecord_ex this w =
     with_this this w (\<lambda>m.
       exec No_success (errorCallback m) ''MediaRec'' ''startRecordingAudio'' [JStr (id m), src m] w)"

definition startRecordWithCompression_ex :: "nat \<Rightarrow> jsval \<Rightarrow> world \<Rightarrow> completion \<times> world" where
  "startRecordWithCompression_ex this options w =
     with_this this w (\<lambda>m.
       exec No_success (errorCallback m) ''MediaRec'' ''startRecordingAudioWithCompression''
         [JStr (id m), src m, options] w)"

definition stopRecord_ex :: "nat \<Rightarrow> world \<Rightarrow> completion \<times> world" where
  "stopRecord_ex this w =
     with_this this w (\<lambda>m.
       exec No_success (errorCallback m) ''MediaRec'' ''stopRecordingAudio'' [JStr (id m)] w)"

definition pauseRecord_ex :: "nat \<Rightarrow> world \<Rightarrow> completion \<times> world" where
  "pauseRecord_ex this w =
     with_this this w (\<lambda>m.
       exec No_success (errorCallback m) ''MediaRec'' ''pauseRecordingAudio'' [JStr (id m)] w)"

definition resumeRecord_ex :: "nat \<Rightarrow> world \<Rightarrow> completion \<times> world" where
  "resumeRecord_ex this w =
     with_this this w (\<lambda>m.
       exec No_success (errorCallback m) ''MediaRec'' ''resumeRecordingAudio'' [JStr (id m), src m] w)"

definition getRecordLevels_ex :: "host \<Rightarrow> nat \<Rightarrow> jsval \<Rightarrow> jsval \<Rightarrow> world \<Rightarrow> completion \<times> world" where
  "getRecordLevels_ex h this success fail w =
     with_this this w (\<lambda>m.
       if platformId h = ''android'' then
         exec (Db_success this success) fail ''MediaRec'' ''getRecordDbLevel'' [JStr (id m)] w
       else if platformId h = ''ios'' then
         exec (User_success success) fail ''MediaRec'' ''getAudioRecordingLevels'' [JStr (id m)] w
       else (Thrown TypeError, w))"

definition release_ex :: "nat \<Rightarrow> world \<Rightarrow> completion \<times> world" where
  "release_ex this w =
     with_this this w (\<lambda>m.
       exec No_success (errorCallback m) ''MediaRec'' ''release'' [JStr (id m)] w)"

definition setVolume_ex :: "nat \<Rightarrow> jsval \<Rightarrow> world \<Rightarrow> completion \<times> world" where
  "setVolume_ex this v w =
     with_this this w (\<lambda>m. exec No_success JNull ''MediaRec'' ''setVolume'' [JStr (id m), v] w)"

text \<open>The subscription made when Cordova is ready, on the platforms that have the
  message channel.\<close>

definition onCordovaReady :: "host \<Rightarrow> world \<Rightarrow> completion \<times> world" where
  "onCordovaReady h w =
     (if platformId h = ''android'' \<or> platformId h = ''amazon-fireos''
         \<or> platformId h = ''windowsphone''
      then exec Message_channel JUndefined ''MediaRec'' ''messageChannel'' [] w
      else (Returned, w))"

definition Unknown_action :: "host \<Rightarrow> jsval \<Rightarrow> jsval" where
  "Unknown_action h a =
     JObj [(''name'', JStr ''Error''), (''message'', JStr (''Unknown media action'' @ key_of h a))]"

text \<open>onMessageFromNative: the property reads of \<open>msg.status.id\<close>, \<open>.msgType\<close>
  and \<open>.value\<close> come before the call.\<close>

definition onMessageFromNative :: "host \<Rightarrow> jsval \<Rightarrow> world \<Rightarrow> completion \<times> world" where
  "onMessageFromNative h msg w =
     (case get_prop msg ''action'' of
        Inl e \<Rightarrow> (Thrown e, w)
      | Inr a \<Rightarrow>
          if loose_eq_status a then
            (case get_prop msg ''status'' of
               Inl e \<Rightarrow> (Thrown e, w)
             | Inr s \<Rightarrow>
                 (case (get_prop s ''id'', get_prop s ''msgType'', get_prop s ''value'') of
                    (Inr i, Inr t, Inr v) \<Rightarrow> onStatus_ex h i t v w
                  | _ \<Rightarrow> (Thrown TypeError, w)))
          else (Thrown (Unknown_action h a), w))"

text \<open>The executor answers a request: the success function of the request runs with
  the value, or the failure function with the error (null is not called).\<close>

fun exec_succeeds :: "host \<Rightarrow> exec_success \<Rightarrow> jsval \<Rightarrow> world \<Rightarrow> completion \<times> world" where
  "exec_succeeds h No_success p w = (Returned, w)"
| "exec_succeeds h (User_success f) p w = call_if_present f [p] w"
| "exec_succeeds h (Stop_success me) p w =
     with_this me w (\<lambda>m. (Returned, update_object me (\<lambda>m. m\<lparr>position := num 0\<rparr>) w))"
| "exec_succeeds h (SeekTo_success me) p w =
     with_this me w (\<lambda>m. (Returned, update_object me (\<lambda>m. m\<lparr>position := p\<rparr>) w))"
| "exec_succeeds h (Position_success me success) p w =
     with_this me w (\<lambda>m. call_js success [p] (update_object me (\<lambda>m. m\<lparr>position := p\<rparr>) w))"
| "exec_succeeds h (Db_success me success) p w =
     with_this me w (\<lambda>m. call_js success [p] (update_object me (\<lambda>m. m\<lparr>db := p\<rparr>) w))"
| "exec_succeeds h Message_channel p w = onMessageFromNative h p w"

definition exec_fails :: "jsval \<Rightarrow> jsval \<Rightarrow> world \<Rightarrow> completion \<times> world" where
  "exec_fails fail err w = call_if_present fail [err] w"

section \<open>Vocabulary of the statements\<close>

text \<open>
  \<open>emits es w\<close> is \<open>w\<close> with the events \<open>es\<close> appended to its trace;
  \<open>invoked f args\<close> is the trace of calling \<open>f\<close> when it is a function, and
  nothing otherwise; \<open>returns f\<close> says that \<open>f\<close> is an absent (falsy) callback
  or a function that returns normally; \<open>ids w\<close> lists the identifiers of the
  objects. The example host, arguments and worlds are the concrete inputs of the
  instances below.
\<close>

definition emits :: "event list \<Rightarrow> world \<Rightarrow> world" where
  "emits es w = w\<lparr>trace := trace w @ es\<rparr>"

fun invoked :: "jsval \<Rightarrow> jsval list \<Rightarrow> event list" where
  "invoked (JFun n t) args = [Invoked n args]"
| "invoked v args = []"

definition returns :: "jsval \<Rightarrow> bool" where
  "returns f = (case f of JFun n t \<Rightarrow> t = None | v \<Rightarrow> \<not> truthy v)"

definition example_host :: host where
  "example_host =
     \<lparr>console_error = True, StringToNumber = (\<lambda>s. NaN), ToString = (\<lambda>v. ''?''),
      platformId = ''android'', MEDIA_ERR_ABORTED = num 1, MEDIA_ERR_SRC_NOT_SUPPORTED = num 4,
      new_Audio_throws = None, play_throws = None, pause_throws = None,
      set_currentTime_throws = None, set_volume_throws = (\<lambda>v. None)\<rparr>"

definition example_args :: "jsval list" where
  "example_args = [JStr ''a.mp3'', JFun ''success'' None, JFun ''error'' None, JFun ''status'' None]"

definition example_node :: audio_node where
  "example_node = \<lparr>node_src = JStr ''a.mp3'', currentTime = Num 0, volume = num 1\<rparr>"

definition example_world :: world where
  "example_world =
     \<lparr>objects = [(construct ''id-1'' example_args)\<lparr>node := Some example_node\<rparr>],
      mediaObjects = [''id-1'' \<mapsto> 0], stray_duration = Map.empty,
      stray_position = Map.empty, trace = []\<rparr>"

definition ids :: "world \<Rightarrow> string list" where
  "ids w = map id (objects w)"

definition empty_world :: world where
  "empty_world =
     \<lparr>objects = [], mediaObjects = Map.empty, stray_duration = Map.empty,
      stray_position = Map.empty, trace = []\<rparr>"

definition registered :: "host \<Rightarrow> world \<Rightarrow> nat \<Rightarrow> MediaRec \<Rightarrow> bool" where
  "registered h w this m =
     (this_object w this = Some m \<and> lookup_media h w (JStr (id m)) = Some (Handle this)
      \<and> returns (statusCallback m) \<and> returns (successCallback m) \<and> returns (errorCallback m))"

definition pause_failure :: "host \<Rightarrow> MediaRec \<Rightarrow> jsval option" where
  "pause_failure h m = (if node m = None then Some TypeError else pause_throws h)"

definition seek_failure :: "host \<Rightarrow> MediaRec \<Rightarrow> jsval option" where
  "seek_failure h m = (if node m = None then Some TypeError else set_currentTime_throws h)"

definition error_events :: "MediaRec \<Rightarrow> jsval \<Rightarrow> event list" where
  "error_events m e = OnStatus (JStr (id m)) (num MEDIA_ERROR) e # invoked (errorCallback m) [e]"

definition state_events :: "MediaRec \<Rightarrow> real \<Rightarrow> event list" where
  "state_events m s =
     OnStatus (JStr (id m)) (num MEDIA_STATE) (num s) # invoked (statusCallback m) [num s]
       @ (if s = MEDIA_STOPPED then invoked (successCallback m) [] else [])"

definition failing_pause_host :: host where
  "failing_pause_host = example_host\<lparr>pause_throws := Some (JStr ''pause failed'')\<rparr>"

definition example_handle :: MediaRec where
  "example_handle = (construct ''id-1'' example_args)\<lparr>node := Some example_node\<rparr>"

section \<open>Auxiliary facts\<close>

lemma emit_emits: "emit e w = emits [e] w"
  by (simp add: emit_def emits_def)

lemma emits_emits [simp]: "emits es (emits fs w) = emits (fs @ es) w"
  by (simp add: emits_def)

lemma emits_Nil [simp]: "emits [] w = w"
  by (simp add: emits_def)

lemma emits_fields [simp]:
  "objects (emits es w) = objects w"
  "mediaObjects (emits es w) = mediaObjects w"
  "stray_duration (emits es w) = stray_duration w"
  "stray_position (emits es w) = stray_position w"
  "trace (emits es w) = trace w @ es"
  by (simp_all add: emits_def)

lemma own_handle_emits [simp]: "own_handle (emits es w) k = own_handle w k"
  by (simp add: own_handle_def split: option.splits)

lemma lookup_media_emits [simp]: "lookup_media h (emits es w) i = lookup_media h w i"
  by (simp add: lookup_media_def split: option.splits)

lemma found_media_emits [simp]: "found_media h (emits es w) i = found_media h w i"
  by (simp add: found_media_def)

lemma found_media_Handle:
  "lookup_media h w i = Some (Handle r) \<Longrightarrow> found_media h w i = Some (Handle r)"
  by (simp add: found_media_def)

lemma found_media_None: "lookup_media h w i = None \<Longrightarrow> found_media h w i = None"
  by (simp add: found_media_def)

lemma media_callbacks_emits [simp]:
  "media_statusCallback (emits es w) media = media_statusCallback w media"
  "media_successCallback (emits es w) media = media_successCallback w media"
  "media_errorCallback (emits es w) media = media_errorCallback w media"
  by (cases media; simp)+

lemma this_object_emits [simp]: "this_object (emits es w) r = this_object w r"
  by (simp add: this_object_def)

lemma update_object_emits [simp]: "update_object r f (emits es w) = emits es (update_object r f w)"
  by (simp add: update_object_def emits_def)

lemma call_if_present_returns:
  "returns f \<Longrightarrow> call_if_present f args w = (Returned, emits (invoked f args) w)"
  by (cases f) (auto simp: returns_def call_if_present_def emit_emits)

lemma strict_eq_num_simps [simp]:
  "strict_eq_num (num a) b = (a = b)"
  "strict_eq_num (JNum n) b = (n = Num b)"
  by (auto simp: strict_eq_num_def strict_eq_def num_def)

lemma msg_consts [simp]:
  "MEDIA_STATE \<noteq> MEDIA_DURATION" "MEDIA_STATE \<noteq> MEDIA_ERROR" "MEDIA_STATE \<noteq> MEDIA_POSITION"
  "MEDIA_DURATION \<noteq> MEDIA_STATE" "MEDIA_DURATION \<noteq> MEDIA_ERROR" "MEDIA_DURATION \<noteq> MEDIA_POSITION"
  "MEDIA_ERROR \<noteq> MEDIA_STATE" "MEDIA_ERROR \<noteq> MEDIA_DURATION" "MEDIA_ERROR \<noteq> MEDIA_POSITION"
  "MEDIA_POSITION \<noteq> MEDIA_STATE" "MEDIA_POSITION \<noteq> MEDIA_DURATION" "MEDIA_POSITION \<noteq> MEDIA_ERROR"
  by (simp_all add: MEDIA_STATE_def MEDIA_DURATION_def MEDIA_ERROR_def MEDIA_POSITION_def)

lemma onStatus_sa_state:
  assumes "lookup_media h w i = Some (Handle r)"
    and "returns (statusCallback (objects w ! r))"
    and "returns (successCallback (objects w ! r))"
  shows "onStatus_sa h i (num MEDIA_STATE) v w =
     (Returned, emits (OnStatus i (num MEDIA_STATE) v
         # invoked (statusCallback (objects w ! r)) [v]
         @ (if strict_eq_num v MEDIA_STOPPED then invoked (successCallback (objects w ! r)) [] else [])) w)"
  using assms
  by (simp add: onStatus_sa_def found_media_Handle found_media_None Let_def call_if_present_returns emit_emits)

lemma onStatus_ex_state:
  assumes "lookup_media h w i = Some (Handle r)"
    and "returns (statusCallback (objects w ! r))"
    and "returns (successCallback (objects w ! r))"
  shows "onStatus_ex h i (num MEDIA_STATE) v w =
     (Returned, emits (OnStatus i (num MEDIA_STATE) v
         # invoked (statusCallback (objects w ! r)) [v]
         @ (if loose_eq_num h v MEDIA_STOPPED then invoked (successCallback (objects w ! r)) [] else [])) w)"
  using assms
  by (simp add: onStatus_ex_def found_media_Handle found_media_None Let_def call_if_present_returns emit_emits)

lemma onStatus_sa_error:
  assumes "lookup_media h w i = Some (Handle r)"
    and "returns (errorCallback (objects w ! r))"
  shows "onStatus_sa h i (num MEDIA_ERROR) v w =
     (Returned, emits (OnStatus i (num MEDIA_ERROR) v # invoked (errorCallback (objects w ! r)) [v]) w)"
  using assms
  by (simp add: onStatus_sa_def found_media_Handle found_media_None Let_def call_if_present_returns emit_emits)

lemma onStatus_sa_position:
  assumes "lookup_media h w i = Some (Handle r)"
  shows "onStatus_sa h i (num MEDIA_POSITION) v w =
     (Returned, emits [OnStatus i (num MEDIA_POSITION) v]
        (update_object r (\<lambda>m. m\<lparr>position := JNum (ToNumber h v)\<rparr>) w))"
  using assms
  by (simp add: onStatus_sa_def found_media_Handle found_media_None Let_def emit_emits)

lemma onStatus_sa_unknown:
  "lookup_media h w i = None \<Longrightarrow>
   onStatus_sa h i t v w =
     (Returned, console_error_log h (''Received MediaRec.onStatus callback for unknown media :: '' @ key_of h i)
        (emit (OnStatus i t v) w))"
  by (simp add: onStatus_sa_def found_media_Handle found_media_None Let_def emit_emits)

lemma onStatus_ex_unknown:
  "lookup_media h w i = None \<Longrightarrow>
   onStatus_ex h i t v w =
     (Returned, console_error_log h (''Received MediaRec.onStatus callback for unknown media :: '' @ key_of h i)
        (emit (OnStatus i t v) w))"
  by (simp add: onStatus_ex_def found_media_Handle found_media_None Let_def emit_emits)

lemma lookup_media_own:
  "own_handle w (key_of h i) = Some r \<Longrightarrow> lookup_media h w i = Some (Handle r)"
  by (simp add: lookup_media_def)

lemma example_lookup: "lookup_media h example_world (JStr ''id-1'') = Some (Handle 0)"
  by (rule lookup_media_own) (simp add: own_handle_def example_world_def key_of_def)

lemma example_object:
  "objects example_world ! 0 = (construct ''id-1'' example_args)\<lparr>node := Some example_node\<rparr>"
  by (simp add: example_world_def)

lemma example_callbacks:
  "statusCallback (construct u example_args) = JFun ''status'' None"
  "successCallback (construct u example_args) = JFun ''success'' None"
  "errorCallback (construct u example_args) = JFun ''error'' None"
  "src (construct u example_args) = JStr ''a.mp3''"
  by (simp_all add: construct_def example_args_def nth_arg_def)

lemma call_js_frame:
  "call_js f args w = (c, w') \<Longrightarrow>
     objects w' = objects w \<and> mediaObjects w' = mediaObjects w \<and> (\<exists>es. trace w' = trace w @ es)"
  by (cases f) (auto simp: emit_emits)

lemma call_if_present_frame:
  "call_if_present f args w = (c, w') \<Longrightarrow>
     objects w' = objects w \<and> mediaObjects w' = mediaObjects w \<and> (\<exists>es. trace w' = trace w @ es)"
  by (auto simp: call_if_present_def dest: call_js_frame split: if_splits)

lemma update_object_fields [simp]:
  "mediaObjects (update_object r f w) = mediaObjects w"
  "stray_duration (update_object r f w) = stray_duration w"
  "stray_position (update_object r f w) = stray_position w"
  "trace (update_object r f w) = trace w"
  "length (objects (update_object r f w)) = length (objects w)"
  by (simp_all add: update_object_def)

lemma own_handle_update_object [simp]: "own_handle (update_object r f w) k = own_handle w k"
  by (simp add: own_handle_def split: option.splits)

lemma console_error_log_fields [simp]:
  "mediaObjects (console_error_log h s w) = mediaObjects w"
  "objects (console_error_log h s w) = objects w"
  by (simp_all add: console_error_log_def emit_emits)

lemma console_error_log_trace: "\<exists>es. trace (console_error_log h s w) = trace w @ es"
  by (simp add: console_error_log_def emit_emits)

lemma ids_simps [simp]:
  "ids (emits es w) = ids w"
  "ids (console_error_log h s w) = ids w"
  by (simp_all add: ids_def)

lemma ids_update_object:
  "id (f (objects w ! r)) = id (objects w ! r) \<Longrightarrow> ids (update_object r f w) = ids w"
proof (cases "r < length (objects w)")
  case True
  assume "id (f (objects w ! r)) = id (objects w ! r)"
  with True show ?thesis
    by (simp add: ids_def update_object_def map_update list_update_same_conv)
next
  case False
  then show ?thesis by (simp add: ids_def update_object_def list_update_beyond)
qed

lemma assign_frame [simp]:
  "mediaObjects (assign_duration media v w) = mediaObjects w"
  "mediaObjects (assign_position media v w) = mediaObjects w"
  "trace (assign_duration media v w) = trace w"
  "trace (assign_position media v w) = trace w"
  by (cases media; simp add: assign_stray_def store_stray_def split: jsval.splits)+

lemma assign_ids [simp]:
  "ids (assign_duration media v w) = ids w"
  "ids (assign_position media v w) = ids w"
  by (cases media; simp add: assign_stray_def store_stray_def ids_update_object split: jsval.splits;
      simp add: ids_def)+

lemma onStatus_sa_frame:
  assumes "onStatus_sa h i t v w = (c, w')"
  shows "mediaObjects w' = mediaObjects w \<and> ids w' = ids w"
proof (cases "found_media h w i")
  case None
  with assms show ?thesis by (auto simp: onStatus_sa_def Let_def emit_emits)
next
  case (Some media)
  from assms Some show ?thesis
    apply (simp add: onStatus_sa_def Let_def emit_emits split: if_splits prod.splits completion.splits)
    by (auto dest!: call_if_present_frame) (simp_all add: ids_def)
qed

lemma onStatus_sa_trace:
  assumes "onStatus_sa h i t v w = (c, w')"
  shows "\<exists>es. trace w' = trace w @ OnStatus i t v # es"
proof (cases "found_media h w i")
  case None
  with assms show ?thesis by (auto simp: onStatus_sa_def Let_def emit_emits console_error_log_def)
next
  case (Some media)
  from assms Some show ?thesis
    apply (simp add: onStatus_sa_def Let_def emit_emits split: if_splits prod.splits completion.splits)
    by (auto dest!: call_if_present_frame simp: console_error_log_def emit_emits)
qed

lemma register_fields [simp]:
  "mediaObjects (register uuid args w) = (mediaObjects w)(uuid \<mapsto> new_handle w)"
  "objects (register uuid args w) = objects w @ [construct uuid args]"
  "trace (register uuid args w) = trace w"
  "ids (register uuid args w) = ids w @ [uuid]"
  by (simp_all add: register_def ids_def construct_def)

lemma assign_node_frame:
  assumes "assign_node h r w = (c, w')"
  shows "mediaObjects w' = mediaObjects w \<and> ids w' = ids w"
  using assms
  by (auto simp: assign_node_def ids_update_object split: sum.splits dest: onStatus_sa_frame)

lemma MediaRec_sa_frame:
  assumes "checkArgs ''SFFF'' args" and "MediaRec_sa h args uuid w = (c, w')"
  shows "mediaObjects w' = (mediaObjects w)(uuid \<mapsto> new_handle w) \<and> ids w' = ids w @ [uuid]"
proof -
  obtain c1 w1 where 1: "onStatus_sa h (JStr uuid) (num MEDIA_STATE) (num MEDIA_STARTING) (register uuid args w) = (c1, w1)"
    by (cases "onStatus_sa h (JStr uuid) (num MEDIA_STATE) (num MEDIA_STARTING) (register uuid args w)")
  from onStatus_sa_frame [OF 1]
  have f1: "mediaObjects w1 = (mediaObjects w)(uuid \<mapsto> new_handle w)" "ids w1 = ids w @ [uuid]"
    by simp_all
  show ?thesis
  proof (cases c1)
    case Returned
    with assms 1 have "assign_node h (new_handle w) w1 = (c, w')"
      by (simp add: MediaRec_sa_def and_then_def)
    from assign_node_frame [OF this] f1 show ?thesis by simp
  next
    case (Thrown e)
    with assms 1 have "w' = w1" by (simp add: MediaRec_sa_def and_then_def)
    with f1 show ?thesis by simp
  qed
qed

lemma ids_snoc:
  assumes "ids w' = ids w @ [u]"
  shows "length (objects w') = Suc (length (objects w))"
    and "id (objects w' ! length (objects w)) = u"
proof -
  from assms have "length (ids w') = Suc (length (ids w))" by simp
  then show len: "length (objects w') = Suc (length (objects w))" by (simp add: ids_def)
  have "ids w' ! length (objects w) = u"
    using assms by (simp add: nth_append ids_def)
  moreover have "ids w' ! length (objects w) = id (objects w' ! length (objects w))"
    unfolding ids_def using len by (intro nth_map) simp
  ultimately show "id (objects w' ! length (objects w)) = u" by simp
qed

lemma example_checkArgs: "checkArgs ''SFFF'' example_args" "checkArgs ''sFFF'' example_args"
  by (simp_all add: checkArgs_def arg_ok_def nth_arg_def example_args_def nullish_def upt_rec)

lemma this_object_Some: "this_object w r = Some m \<longleftrightarrow> r < length (objects w) \<and> m = objects w ! r"
  by (auto simp: this_object_def)

lemma lookup_media_update_object [simp]:
  "lookup_media h (update_object r f w) i = lookup_media h w i"
  by (simp add: lookup_media_def split: option.splits)

lemma lookup_media_bound: "lookup_media h w i = Some (Handle r) \<Longrightarrow> r < length (objects w)"
  by (auto simp: lookup_media_def own_handle_def split: option.splits if_splits)

lemma objects_update_object_nth:
  "r < length (objects w) \<Longrightarrow> objects (update_object this f w) ! r =
     (if r = this then f (objects w ! r) else objects w ! r)"
  by (simp add: update_object_def)

lemma assign_node_trace:
  assumes "assign_node h r w = (c, w')"
  shows "\<exists>es. trace w' = trace w @ es"
  using assms
  by (auto simp: assign_node_def split: sum.splits dest: onStatus_sa_trace)

lemma onStatus_sa_Starting:
  assumes "lookup_media h w i = Some (Handle r)" and "statusCallback (objects w ! r) = JFun s t"
  shows "onStatus_sa h i (num MEDIA_STATE) (num MEDIA_STARTING) w =
         call_js (JFun s t) [num MEDIA_STARTING] (emit (OnStatus i (num MEDIA_STATE) (num MEDIA_STARTING)) w)"
  using assms
  by (simp add: onStatus_sa_def found_media_Handle found_media_None Let_def emit_emits call_if_present_def MEDIA_STARTING_def
        MEDIA_STOPPED_def split: option.splits)

lemma registered_emits [simp]: "registered h (emits es w) this m = registered h w this m"
  by (simp add: registered_def)

lemma registered_object: "registered h w this m \<Longrightarrow> objects w ! this = m"
  by (simp add: registered_def this_object_Some)

lemma status_of_error:
  assumes "registered h w this m"
  shows "status_of h this MEDIA_ERROR e w = (Returned, emits (error_events m e) w)"
proof -
  from assms have "lookup_media h w (JStr (id m)) = Some (Handle this)"
    "returns (errorCallback (objects w ! this))" "this_object w this = Some m"
    by (simp_all add: registered_object) (simp_all add: registered_def)
  then show ?thesis
    by (simp add: status_of_def with_this_def error_events_def onStatus_sa_error
          registered_object [OF assms])
qed

lemma status_of_state:
  assumes "registered h w this m"
  shows "status_of h this MEDIA_STATE (num s) w = (Returned, emits (state_events m s) w)"
proof -
  from assms have "lookup_media h w (JStr (id m)) = Some (Handle this)"
    "returns (statusCallback (objects w ! this))" "returns (successCallback (objects w ! this))"
    "this_object w this = Some m"
    by (simp_all add: registered_object) (simp_all add: registered_def)
  then show ?thesis
    by (simp add: status_of_def with_this_def state_events_def onStatus_sa_state
          registered_object [OF assms])
qed

lemma node_pause_result:
  assumes "registered h w this m"
  shows "node_pause h this w =
     (case pause_failure h m of Some e \<Rightarrow> (Thrown e, w) | None \<Rightarrow> (Returned, emits [Audio_pause] w))"
  using assms
  by (auto simp: registered_def node_pause_def with_this_def pause_failure_def emit_emits
        split: option.splits)

lemma pause_sa_result:
  assumes "registered h w this m"
  shows "pause_sa h this w =
     (Returned, emits (case pause_failure h m of
                         Some e \<Rightarrow> error_events m e
                       | None \<Rightarrow> Audio_pause # state_events m MEDIA_PAUSED) w)"
  using assms
  by (simp add: pause_sa_def node_pause_result and_then_def try_catch_def status_of_state
        status_of_error split: option.splits)

lemma registered_update_node:
  assumes "registered h w this m"
  shows "registered h (update_object this (\<lambda>m. m\<lparr>node := x\<rparr>) w) this (m\<lparr>node := x\<rparr>)"
proof -
  from assms have lt: "this < length (objects w)" and m: "objects w ! this = m"
    by (simp_all add: registered_def this_object_Some)
  have "this_object (update_object this (\<lambda>m. m\<lparr>node := x\<rparr>) w) this = Some (m\<lparr>node := x\<rparr>)"
    using lt m by (simp add: this_object_def update_object_def)
  with assms show ?thesis by (simp add: registered_def)
qed

lemma events_node [simp]:
  "error_events (m\<lparr>node := x\<rparr>) e = error_events m e"
  "state_events (m\<lparr>node := x\<rparr>) s = state_events m s"
  by (simp_all add: error_events_def state_events_def)

lemma seekTo_sa_result:
  assumes "registered h w this m"
  shows "seekTo_sa h this (num r) w =
     (case seek_failure h m of
        Some e \<Rightarrow> (Returned, emits (error_events m e) w)
      | None \<Rightarrow>
          (Returned, emits [Audio_set_currentTime (Num (r / 1000))]
             (update_object this
                (\<lambda>m'. m'\<lparr>node := Some ((the (node m))\<lparr>currentTime := Num (r / 1000)\<rparr>)\<rparr>) w)))"
proof -
  from assms have t: "this_object w this = Some m" by (simp add: registered_def)
  show ?thesis
    using t status_of_error [OF assms]
    by (auto simp: seekTo_sa_def node_set_currentTime_def with_this_def seek_failure_def
          try_catch_def num_def arith_div_def emit_emits split: option.splits)
qed

lemma example_handle_fields:
  "id example_handle = ''id-1''"
  "statusCallback example_handle = JFun ''status'' None"
  "successCallback example_handle = JFun ''success'' None"
  "errorCallback example_handle = JFun ''error'' None"
  "node example_handle = Some example_node"
  "src example_handle = JStr ''a.mp3''"
  by (simp_all add: example_handle_def example_callbacks) (simp add: construct_def)

lemma example_this: "this_object example_world 0 = Some example_handle"
  by (simp add: this_object_def example_world_def example_handle_def)

lemma example_registered: "registered h example_world 0 example_handle"
  by (simp add: registered_def example_this example_handle_fields example_lookup returns_def)

lemma getCurrentPosition_sa_ok:
  assumes "this_object w this = Some m" and "lookup_media h w (JStr (id m)) = Some (Handle this)"
    and "node m = Some n"
  shows "getCurrentPosition_sa h this (JFun s None) fail w =
     (Returned, emits [OnStatus (JStr (id m)) (num MEDIA_POSITION) (JNum (currentTime n)),
                       Invoked s [JNum (currentTime n)]]
        (update_object this (\<lambda>m. m\<lparr>position := JNum (currentTime n)\<rparr>) w))"
  using assms
  by (simp add: getCurrentPosition_sa_def with_this_def status_of_def onStatus_sa_position
        and_then_def try_catch_def emit_emits)

lemma getCurrentPosition_sa_fail:
  assumes "this_object w this = Some m" and "node m = None"
  shows "getCurrentPosition_sa h this success (JFun f None) w =
     (Returned, emits [Invoked f [TypeError]] w)"
  using assms
  by (simp add: getCurrentPosition_sa_def with_this_def try_catch_def emit_emits)

section \<open>The claims\<close>

text \<open>
  C1. In the standalone file stop runs pause, then seekTo(0), then dispatches the
  Stopped state event. As stated the claim fails: pause catches a failure of the node's
  pause itself, so stop goes on to seek and to emit Stopped. At the input below the
  node's pause throws, and the trace still holds the seek and the Stopped event.
\<close>

theorem stop_pause_failure_counterexample:
  "pause_failure failing_pause_host example_handle = Some (JStr ''pause failed'')
   \<and> fst (stop_sa failing_pause_host 0 example_world) = Returned
   \<and> trace (snd (stop_sa failing_pause_host 0 example_world)) =
       [OnStatus (JStr ''id-1'') (num MEDIA_ERROR) (JStr ''pause failed''),
        Invoked ''error'' [JStr ''pause failed''],
        Audio_set_currentTime (Num 0),
        OnStatus (JStr ''id-1'') (num MEDIA_STATE) (num MEDIA_STOPPED),
        Invoked ''status'' [num MEDIA_STOPPED],
        Invoked ''success'' []]"
proof -
  let ?h = failing_pause_host
  let ?e = "JStr ''pause failed''"
  let ?w1 = "emits (error_events example_handle ?e) example_world"
  let ?x = "Some ((the (node example_handle))\<lparr>currentTime := Num 0\<rparr>)"
  let ?w2 = "emits [Audio_set_currentTime (Num 0)]
               (update_object 0 (\<lambda>m'. m'\<lparr>node := ?x\<rparr>) ?w1)"
  have pf: "pause_failure ?h example_handle = Some ?e"
    by (simp add: pause_failure_def failing_pause_host_def example_handle_fields)
  have sf: "seek_failure ?h example_handle = None"
    by (simp add: seek_failure_def failing_pause_host_def example_host_def example_handle_fields)
  have r1: "registered ?h ?w1 0 example_handle"
    using example_registered [of ?h] by simp
  have r2: "registered ?h ?w2 0 (example_handle\<lparr>node := ?x\<rparr>)"
    using registered_update_node [OF r1, of ?x] by simp
  have p: "pause_sa ?h 0 example_world = (Returned, ?w1)"
    using pause_sa_result [OF example_registered, of ?h] by (simp add: pf)
  have s: "seekTo_sa ?h 0 (num 0) ?w1 = (Returned, ?w2)"
    using seekTo_sa_result [OF r1, of 0] by (simp add: sf)
  have st: "status_of ?h 0 MEDIA_STATE (num MEDIA_STOPPED) ?w2 =
      (Returned, emits (state_events example_handle MEDIA_STOPPED) ?w2)"
    using status_of_state [OF r2, of MEDIA_STOPPED] by simp
  have stop: "stop_sa ?h 0 example_world =
      (Returned, emits (state_events example_handle MEDIA_STOPPED) ?w2)"
    by (simp add: stop_sa_def p s st and_then_def try_catch_def del: emits_emits update_object_emits)
  have tr: "trace example_world = []" by (simp add: example_world_def)
  show ?thesis
    unfolding stop
    by (simp add: pf tr error_events_def state_events_def example_handle_fields)
qed

text \<open>
  C1, amended. For a registered handle whose callbacks are absent or return normally,
  stop returns normally and its trace is: the pause step (the node's pause and the
  Paused state event, or the error event that reports its failure), then the seek step
  (the seek to zero, or the error event that reports its failure), then the Stopped
  state event with the status and success callbacks.
\<close>

theorem stop_sa_steps:
  assumes "registered h w this m"
  shows "fst (stop_sa h this w) = Returned
     \<and> trace (snd (stop_sa h this w)) = trace w
         @ (case pause_failure h m of
              Some e \<Rightarrow> error_events m e
            | None \<Rightarrow> Audio_pause # state_events m MEDIA_PAUSED)
         @ (case seek_failure h m of
              Some e \<Rightarrow> error_events m e
            | None \<Rightarrow> [Audio_set_currentTime (Num 0)])
         @ state_events m MEDIA_STOPPED"
proof -
  let ?P = "case pause_failure h m of Some e \<Rightarrow> error_events m e
            | None \<Rightarrow> Audio_pause # state_events m MEDIA_PAUSED"
  let ?w1 = "emits ?P w"
  have r1: "registered h ?w1 this m" using assms by simp
  have p: "pause_sa h this w = (Returned, ?w1)" by (rule pause_sa_result [OF assms])
  show ?thesis
  proof (cases "seek_failure h m")
    case (Some e)
    have s: "seekTo_sa h this (num 0) ?w1 = (Returned, emits (error_events m e) ?w1)"
      using seekTo_sa_result [OF r1, of 0] Some by simp
    have r2: "registered h (emits (error_events m e) ?w1) this m" using assms by simp
    show ?thesis
      using Some status_of_state [OF r2, of MEDIA_STOPPED]
      by (simp add: stop_sa_def p s and_then_def try_catch_def del: emits_emits)
  next
    case None
    let ?x = "Some ((the (node m))\<lparr>currentTime := Num 0\<rparr>)"
    let ?w2 = "emits [Audio_set_currentTime (Num 0)] (update_object this (\<lambda>m'. m'\<lparr>node := ?x\<rparr>) ?w1)"
    have s: "seekTo_sa h this (num 0) ?w1 = (Returned, ?w2)"
      using seekTo_sa_result [OF r1, of 0] None by simp
    have r2: "registered h ?w2 this (m\<lparr>node := ?x\<rparr>)"
      using registered_update_node [OF r1, of ?x] by simp
    show ?thesis
      using None status_of_state [OF r2, of MEDIA_STOPPED]
      by (simp add: stop_sa_def p s and_then_def try_catch_def del: emits_emits update_object_emits)
  qed
qed

theorem stop_sa_steps_witness:
  "fst (stop_sa example_host 0 example_world) = Returned
   \<and> trace (snd (stop_sa example_host 0 example_world)) =
       [Audio_pause,
        OnStatus (JStr ''id-1'') (num MEDIA_STATE) (num MEDIA_PAUSED),
        Invoked ''status'' [num MEDIA_PAUSED],
        Audio_set_currentTime (Num 0),
        OnStatus (JStr ''id-1'') (num MEDIA_STATE) (num MEDIA_STOPPED),
        Invoked ''status'' [num MEDIA_STOPPED],
        Invoked ''success'' []]"
  using stop_sa_steps [OF example_registered, of example_host]
  by (simp add: pause_failure_def seek_failure_def example_host_def example_handle_fields
        example_world_def state_events_def MEDIA_PAUSED_def MEDIA_STOPPED_def)

text \<open>
  C2. A state-change event dispatched to a registered handle whose status and success
  callbacks are absent or return normally: the status callback, if present, is called
  with the new state value; the success callback, if present, is called once, after
  it, exactly when the value is MEDIA_STOPPED; an absent callback adds nothing and
  the dispatch returns. Both files.
\<close>

theorem onStatus_state_change:
  assumes "lookup_media h w i = Some (Handle r)"
    and "returns (statusCallback (objects w ! r))"
    and "returns (successCallback (objects w ! r))"
  shows "onStatus_sa h i (num MEDIA_STATE) (JNum n) w =
           (Returned, emits (OnStatus i (num MEDIA_STATE) (JNum n)
              # invoked (statusCallback (objects w ! r)) [JNum n]
              @ (if n = Num MEDIA_STOPPED then invoked (successCallback (objects w ! r)) [] else [])) w)
       \<and> onStatus_ex h i (num MEDIA_STATE) (JNum n) w =
           (Returned, emits (OnStatus i (num MEDIA_STATE) (JNum n)
              # invoked (statusCallback (objects w ! r)) [JNum n]
              @ (if n = Num MEDIA_STOPPED then invoked (successCallback (objects w ! r)) [] else [])) w)"
  using assms by (simp add: onStatus_sa_state onStatus_ex_state)

theorem onStatus_state_change_witness:
  "onStatus_sa example_host (JStr ''id-1'') (num MEDIA_STATE) (num MEDIA_STOPPED) example_world =
     (Returned, emits [OnStatus (JStr ''id-1'') (num MEDIA_STATE) (num MEDIA_STOPPED),
                       Invoked ''status'' [num MEDIA_STOPPED], Invoked ''success'' []] example_world)
   \<and> onStatus_ex example_host (JStr ''id-1'') (num MEDIA_STATE) (num MEDIA_RUNNING) example_world =
     (Returned, emits [OnStatus (JStr ''id-1'') (num MEDIA_STATE) (num MEDIA_RUNNING),
                       Invoked ''status'' [num MEDIA_RUNNING]] example_world)"
  using onStatus_state_change [of example_host example_world "JStr ''id-1''" 0 "Num MEDIA_STOPPED"]
        onStatus_state_change [of example_host example_world "JStr ''id-1''" 0 "Num MEDIA_RUNNING"]
  by (simp add: example_lookup example_object example_callbacks returns_def num_def
        MEDIA_STOPPED_def MEDIA_RUNNING_def)

text \<open>
  C3. A status event whose identifier is not registered. The table read
  \<open>mediaObjects[id]\<close> also finds what the table inherits from Object.prototype.
  For the identifier \<open>constructor\<close> it finds Object, so the dispatch takes the branch
  of a found handle: a state event is dropped without the diagnostic, and a duration
  event assigns \<open>_duration\<close> on Object, in both files, on a host that has
  console.error. An identifier that the table neither owns nor inherits, such as
  \<open>id-2\<close>, does get the diagnostic.
\<close>

theorem onStatus_inherited_identifier:
  "console_error example_host
   \<and> lookup_media example_host example_world (JStr ''constructor'') = Some (Builtin ''constructor'')
   \<and> onStatus_sa example_host (JStr ''constructor'') (num MEDIA_STATE) (num MEDIA_RUNNING) example_world =
       (Returned, emits [OnStatus (JStr ''constructor'') (num MEDIA_STATE) (num MEDIA_RUNNING)] example_world)
   \<and> onStatus_ex example_host (JStr ''constructor'') (num MEDIA_STATE) (num MEDIA_RUNNING) example_world =
       (Returned, emits [OnStatus (JStr ''constructor'') (num MEDIA_STATE) (num MEDIA_RUNNING)] example_world)
   \<and> onStatus_sa example_host (JStr ''constructor'') (num MEDIA_DURATION) (num 5) example_world =
       (Returned, emits [OnStatus (JStr ''constructor'') (num MEDIA_DURATION) (num 5)]
          (example_world\<lparr>stray_duration := [''constructor'' \<mapsto> num 5]\<rparr>))
   \<and> onStatus_ex example_host (JStr ''constructor'') (num MEDIA_DURATION) (num 5) example_world =
       (Returned, emits [OnStatus (JStr ''constructor'') (num MEDIA_DURATION) (num 5)]
          (example_world\<lparr>stray_duration := [''constructor'' \<mapsto> num 5]\<rparr>))
   \<and> onStatus_sa example_host (JStr ''id-2'') (num MEDIA_DURATION) (num 5) example_world =
       (Returned, emits [OnStatus (JStr ''id-2'') (num MEDIA_DURATION) (num 5),
          Console_error ''Received MediaRec.onStatus callback for unknown media :: id-2'']
          example_world)"
proof -
  have own: "own_handle example_world ''constructor'' = None" "own_handle example_world ''id-2'' = None"
    by (simp_all add: own_handle_def example_world_def)
  have lk: "lookup_media example_host example_world (JStr ''constructor'') = Some (Builtin ''constructor'')"
    by (simp add: lookup_media_def key_of_def own Object_prototype_keys_def)
  have none: "lookup_media example_host example_world (JStr ''id-2'') = None"
    by (simp add: lookup_media_def key_of_def own Object_prototype_keys_def)
  have fd: "found_media example_host example_world (JStr ''constructor'') = Some (Builtin ''constructor'')"
    by (simp add: found_media_def lk)
  have sd: "stray_duration example_world = Map.empty" by (simp add: example_world_def)
  have ce: "console_error example_host" by (simp add: example_host_def)
  have wd: "\<And>es. (emits es example_world)\<lparr>stray_duration :=
        (stray_duration example_world)(''constructor'' \<mapsto> num 5)\<rparr> =
      emits es (example_world\<lparr>stray_duration := [''constructor'' \<mapsto> num 5]\<rparr>)"
    by (simp add: emits_def sd)
  have s1: "onStatus_sa example_host (JStr ''constructor'') (num MEDIA_STATE) (num MEDIA_RUNNING) example_world =
       (Returned, emits [OnStatus (JStr ''constructor'') (num MEDIA_STATE) (num MEDIA_RUNNING)] example_world)"
    by (simp add: onStatus_sa_def Let_def emit_emits fd call_if_present_def MEDIA_RUNNING_def
          MEDIA_STOPPED_def)
  have e1: "onStatus_ex example_host (JStr ''constructor'') (num MEDIA_STATE) (num MEDIA_RUNNING) example_world =
       (Returned, emits [OnStatus (JStr ''constructor'') (num MEDIA_STATE) (num MEDIA_RUNNING)] example_world)"
    by (simp add: onStatus_ex_def Let_def emit_emits fd call_if_present_def MEDIA_RUNNING_def
          MEDIA_STOPPED_def num_def)
  have s2: "onStatus_sa example_host (JStr ''constructor'') (num MEDIA_DURATION) (num 5) example_world =
       (Returned, emits [OnStatus (JStr ''constructor'') (num MEDIA_DURATION) (num 5)]
          (example_world\<lparr>stray_duration := [''constructor'' \<mapsto> num 5]\<rparr>))"
    by (simp add: onStatus_sa_def Let_def emit_emits fd wd)
  have e2: "onStatus_ex example_host (JStr ''constructor'') (num MEDIA_DURATION) (num 5) example_world =
       (Returned, emits [OnStatus (JStr ''constructor'') (num MEDIA_DURATION) (num 5)]
          (example_world\<lparr>stray_duration := [''constructor'' \<mapsto> num 5]\<rparr>))"
    by (simp add: onStatus_ex_def Let_def emit_emits fd wd)
  have s3: "onStatus_sa example_host (JStr ''id-2'') (num MEDIA_DURATION) (num 5) example_world =
       (Returned, emits [OnStatus (JStr ''id-2'') (num MEDIA_DURATION) (num 5),
          Console_error ''Received MediaRec.onStatus callback for unknown media :: id-2'']
          example_world)"
    by (simp add: onStatus_sa_unknown [OF none] console_error_log_def ce emit_emits key_of_def)
  show ?thesis using ce lk s1 e1 s2 e2 s3 by blast
qed

text \<open>
  C4. getCurrentPosition. As stated the claim fails for the executor-backed file: when
  the executor answers with a position, the success closure stores it and calls the
  caller's success function, and no position status event is dispatched. The trace at
  the input below holds the request and the callback only.
\<close>

theorem getCurrentPosition_ex_counterexample:
  "trace (snd (exec_succeeds example_host (Position_success 0 (JFun ''ok'' None)) (num 4200)
            (snd (getCurrentPosition_ex 0 (JFun ''ok'' None) (JFun ''fail'' None) example_world)))) =
     [Exec (Position_success 0 (JFun ''ok'' None)) (JFun ''fail'' None) ''MediaRec''
        ''getCurrentPositionAudio'' [JStr ''id-1''],
      Invoked ''ok'' [num 4200]]
   \<and> position (objects (snd (exec_succeeds example_host (Position_success 0 (JFun ''ok'' None)) (num 4200)
            (snd (getCurrentPosition_ex 0 (JFun ''ok'' None) (JFun ''fail'' None) example_world)))) ! 0) =
     num 4200"
proof -
  let ?rq = "Exec (Position_success 0 (JFun ''ok'' None)) (JFun ''fail'' None) ''MediaRec''
        ''getCurrentPositionAudio'' [JStr ''id-1'']"
  have 1: "getCurrentPosition_ex 0 (JFun ''ok'' None) (JFun ''fail'' None) example_world =
      (Returned, emits [?rq] example_world)"
    by (simp add: getCurrentPosition_ex_def with_this_def example_this exec_def emit_emits
          example_handle_fields)
  have 2: "exec_succeeds example_host (Position_success 0 (JFun ''ok'' None)) (num 4200)
        (emits [?rq] example_world) =
      (Returned, emits [?rq, Invoked ''ok'' [num 4200]]
         (update_object 0 (\<lambda>m. m\<lparr>position := num 4200\<rparr>) example_world))"
    by (simp add: with_this_def example_this emit_emits)
  show ?thesis
    unfolding 1 snd_conv 2 by (simp add: update_object_def example_world_def)
qed

text \<open>
  C4, amended. Standalone file: with a node, the position status event for the node's
  current time is dispatched, the cached position becomes that value, and then the
  caller's success function is called with it; without a node the caller's failure
  function is called instead. Executor-backed file: the request is forwarded; on success
  the cached position becomes the answered value and the caller's success function is
  called with it, without a status event; on failure the caller's failure function is
  called.
\<close>

theorem getCurrentPosition_outcomes:
  assumes "this_object w this = Some m" and "lookup_media h w (JStr (id m)) = Some (Handle this)"
  shows "(node m = Some n \<longrightarrow>
            getCurrentPosition_sa h this (JFun s None) fail w =
              (Returned, emits [OnStatus (JStr (id m)) (num MEDIA_POSITION) (JNum (currentTime n)),
                                Invoked s [JNum (currentTime n)]]
                 (update_object this (\<lambda>m. m\<lparr>position := JNum (currentTime n)\<rparr>) w)))
     \<and> (node m = None \<longrightarrow>
            getCurrentPosition_sa h this success (JFun f None) w =
              (Returned, emits [Invoked f [TypeError]] w))
     \<and> getCurrentPosition_ex this success fail w =
           (Returned, emits [Exec (Position_success this success) fail ''MediaRec''
                               ''getCurrentPositionAudio'' [JStr (id m)]] w)
     \<and> exec_succeeds h (Position_success this (JFun s None)) p w =
           (Returned, emits [Invoked s [p]] (update_object this (\<lambda>m. m\<lparr>position := p\<rparr>) w))
     \<and> exec_fails (JFun f None) err w = (Returned, emits [Invoked f [err]] w)"
  using assms
  by (simp add: getCurrentPosition_sa_ok getCurrentPosition_sa_fail getCurrentPosition_ex_def
        with_this_def exec_def exec_fails_def call_if_present_def emit_emits)

theorem getCurrentPosition_outcomes_witness:
  "getCurrentPosition_sa example_host 0 (JFun ''ok'' None) (JFun ''fail'' None) example_world =
     (Returned, emits [OnStatus (JStr ''id-1'') (num MEDIA_POSITION) (num 0), Invoked ''ok'' [num 0]]
        (update_object 0 (\<lambda>m. m\<lparr>position := num 0\<rparr>) example_world))"
  using getCurrentPosition_outcomes [OF example_this, of example_host example_node "''ok''"
      "JFun ''fail'' None"]
  by (simp add: example_handle_fields example_lookup example_node_def num_def)

text \<open>
  C5. node.onerror in the standalone file, for a registered handle with an error
  callback: when the element's error code is MEDIA_ERR_SRC_NOT_SUPPORTED the callback
  receives a new object whose code is MEDIA_ERR_ABORTED; any other error object is
  passed to the callback unchanged.
\<close>

theorem onerror_translation:
  assumes "this_object w media = Some m"
    and "lookup_media h w (JStr (id m)) = Some (Handle r)"
    and "errorCallback (objects w ! r) = JFun n t"
    and "get_prop err ''code'' = Inr c"
  shows "(strict_eq c (MEDIA_ERR_SRC_NOT_SUPPORTED h) \<longrightarrow>
           node_onerror h media err w =
             (case t of None \<Rightarrow> Returned | Some e \<Rightarrow> Thrown e,
              emits [OnStatus (JStr (id m)) (num MEDIA_ERROR) (JObj [(''code'', MEDIA_ERR_ABORTED h)]),
                     Invoked n [JObj [(''code'', MEDIA_ERR_ABORTED h)]]] w))
       \<and> (\<not> strict_eq c (MEDIA_ERR_SRC_NOT_SUPPORTED h) \<longrightarrow>
           node_onerror h media err w =
             (case t of None \<Rightarrow> Returned | Some e \<Rightarrow> Thrown e,
              emits [OnStatus (JStr (id m)) (num MEDIA_ERROR) err, Invoked n [err]] w))"
  using assms
  by (simp add: node_onerror_def node_event_def onStatus_sa_def found_media_Handle found_media_None Let_def emit_emits
        call_if_present_def)

theorem onerror_translation_witness:
  "node_onerror example_host 0 (JObj [(''code'', num 4)]) example_world =
     (Returned, emits [OnStatus (JStr ''id-1'') (num MEDIA_ERROR) (JObj [(''code'', num 1)]),
                       Invoked ''error'' [JObj [(''code'', num 1)]]] example_world)
   \<and> node_onerror example_host 0 (JObj [(''code'', num 3)]) example_world =
     (Returned, emits [OnStatus (JStr ''id-1'') (num MEDIA_ERROR) (JObj [(''code'', num 3)]),
                       Invoked ''error'' [JObj [(''code'', num 3)]]] example_world)"
  using onerror_translation [OF example_this, where h = example_host and r = 0 and n = "''error''"
          and t = None and err = "JObj [(''code'', num 4)]" and c = "num 4"]
        onerror_translation [OF example_this, where h = example_host and r = 0 and n = "''error''"
          and t = None and err = "JObj [(''code'', num 3)]" and c = "num 3"]
  by (simp add: example_handle_fields example_lookup example_object [folded example_handle_def]
        example_host_def strict_eq_def num_def)

text \<open>
  C6. After a construction whose arguments pass the argument check, the new handle is
  the registry's entry for the generated identifier, in both files, and carries that
  identifier.
\<close>

theorem constructed_handle_registered:
  "(checkArgs ''SFFF'' args \<longrightarrow>
      lookup_media h (snd (MediaRec_sa h args uuid w)) (JStr uuid) = Some (Handle (new_handle w))
      \<and> id (objects (snd (MediaRec_sa h args uuid w)) ! new_handle w) = uuid)
   \<and> (checkArgs ''sFFF'' args \<longrightarrow>
      fst (MediaRec_ex args uuid w) = Returned
      \<and> get_ex h (snd (MediaRec_ex args uuid w)) (JStr uuid) = Some (Handle (new_handle w))
      \<and> id (objects (snd (MediaRec_ex args uuid w)) ! new_handle w) = uuid)"
proof (intro conjI impI)
  assume ok: "checkArgs ''SFFF'' args"
  have fr: "mediaObjects (snd (MediaRec_sa h args uuid w)) = (mediaObjects w)(uuid \<mapsto> new_handle w)"
           "ids (snd (MediaRec_sa h args uuid w)) = ids w @ [uuid]"
    using MediaRec_sa_frame [OF ok, of h uuid w] by (simp_all add: prod_eq_iff)
  show "lookup_media h (snd (MediaRec_sa h args uuid w)) (JStr uuid) = Some (Handle (new_handle w))"
    using ids_snoc(1) [OF fr(2)]
    by (intro lookup_media_own) (simp add: own_handle_def key_of_def fr(1) new_handle_def)
  show "id (objects (snd (MediaRec_sa h args uuid w)) ! new_handle w) = uuid"
    using ids_snoc(2) [OF fr(2)] by (simp add: new_handle_def)
next
  assume ok: "checkArgs ''sFFF'' args"
  then show "fst (MediaRec_ex args uuid w) = Returned"
    by (simp add: MediaRec_ex_def exec_def)
  show "get_ex h (snd (MediaRec_ex args uuid w)) (JStr uuid) = Some (Handle (new_handle w))"
    using ok unfolding get_ex_def
    by (intro lookup_media_own)
       (simp add: MediaRec_ex_def exec_def emit_emits own_handle_def key_of_def new_handle_def)
  show "id (objects (snd (MediaRec_ex args uuid w)) ! new_handle w) = uuid"
    using ok by (simp add: MediaRec_ex_def exec_def emit_emits new_handle_def construct_def)
qed

theorem constructed_handle_registered_witness:
  "lookup_media example_host (snd (MediaRec_sa example_host example_args ''id-1'' empty_world))
      (JStr ''id-1'') = Some (Handle 0)
   \<and> get_ex example_host (snd (MediaRec_ex example_args ''id-1'' empty_world)) (JStr ''id-1'') = Some (Handle 0)"
  using constructed_handle_registered [of example_args example_host "''id-1''" empty_world]
    example_checkArgs
  by (simp add: new_handle_def empty_world_def)

text \<open>
  C7. The recording operations on a standalone handle. startRecord and stopRecord
  dispatch the error event with the value "Not supported"; pauseRecord, resumeRecord and
  startRecordWithCompression are not defined by this file's prototype, so calling them
  throws a TypeError and no error event is dispatched.
\<close>

theorem record_sa_undefined_methods:
  "record_sa example_host 0 PauseRecord example_world = (Thrown TypeError, example_world)
   \<and> record_sa example_host 0 ResumeRecord example_world = (Thrown TypeError, example_world)
   \<and> record_sa example_host 0 (StartRecordWithCompression JUndefined) example_world =
        (Thrown TypeError, example_world)
   \<and> record_sa example_host 0 StartRecord example_world =
        (Returned, emits [OnStatus (JStr ''id-1'') (num MEDIA_ERROR) (JStr ''Not supported''),
                          Invoked ''error'' [JStr ''Not supported'']] example_world)
   \<and> record_sa example_host 0 StopRecord example_world =
        (Returned, emits [OnStatus (JStr ''id-1'') (num MEDIA_ERROR) (JStr ''Not supported''),
                          Invoked ''error'' [JStr ''Not supported'']] example_world)"
  using status_of_error [OF example_registered, of example_host "JStr ''Not supported''"]
  by (simp add: startRecord_sa_def stopRecord_sa_def error_events_def example_handle_fields)

text \<open>
  C8. release keeps the registration. Standalone file: only the node of the handle is
  dropped, every other field and the registry stay as they were. Executor-backed file:
  the release request is forwarded and nothing else changes. In both, every identifier
  looks up the same handle as before, and a later Stopped event for the handle's
  identifier still reaches its callbacks.
\<close>

theorem release_keeps_registration:
  assumes "this_object w this = Some m"
    and "lookup_media h w (JStr (id m)) = Some (Handle this)"
    and "returns (statusCallback m)" and "returns (successCallback m)"
  shows "release_sa this w = (Returned, w\<lparr>objects := (objects w)[this := m\<lparr>node := None\<rparr>]\<rparr>)
    \<and> lookup_media h (snd (release_sa this w)) i = lookup_media h w i
    \<and> onStatus_sa h (JStr (id m)) (num MEDIA_STATE) (num MEDIA_STOPPED) (snd (release_sa this w)) =
        (Returned, emits (OnStatus (JStr (id m)) (num MEDIA_STATE) (num MEDIA_STOPPED)
           # invoked (statusCallback m) [num MEDIA_STOPPED] @ invoked (successCallback m) [])
           (snd (release_sa this w)))
    \<and> release_ex this w =
        (Returned, emits [Exec No_success (errorCallback m) ''MediaRec'' ''release'' [JStr (id m)]] w)
    \<and> lookup_media h (snd (release_ex this w)) i = lookup_media h w i
    \<and> objects (snd (release_ex this w)) = objects w
    \<and> onStatus_ex h (JStr (id m)) (num MEDIA_STATE) (num MEDIA_STOPPED) (snd (release_ex this w)) =
        (Returned, emits (OnStatus (JStr (id m)) (num MEDIA_STATE) (num MEDIA_STOPPED)
           # invoked (statusCallback m) [num MEDIA_STOPPED] @ invoked (successCallback m) [])
           (snd (release_ex this w)))"
proof -
  from assms(1) have lt: "this < length (objects w)" and m: "m = objects w ! this"
    by (simp_all add: this_object_Some)
  have sa: "release_sa this w = (Returned, update_object this (\<lambda>m. m\<lparr>node := None\<rparr>) w)"
    using assms(1) by (simp add: release_sa_def with_this_def)
  have ex: "release_ex this w =
        (Returned, emits [Exec No_success (errorCallback m) ''MediaRec'' ''release'' [JStr (id m)]] w)"
    using assms(1) by (simp add: release_ex_def with_this_def exec_def emit_emits)
  have obj: "objects (update_object this (\<lambda>m. m\<lparr>node := None\<rparr>) w) ! this = m\<lparr>node := None\<rparr>"
    using lt m by (simp add: objects_update_object_nth)
  have d_sa: "onStatus_sa h (JStr (id m)) (num MEDIA_STATE) (num MEDIA_STOPPED)
        (update_object this (\<lambda>m. m\<lparr>node := None\<rparr>) w) =
        (Returned, emits (OnStatus (JStr (id m)) (num MEDIA_STATE) (num MEDIA_STOPPED)
           # invoked (statusCallback m) [num MEDIA_STOPPED] @ invoked (successCallback m) [])
           (update_object this (\<lambda>m. m\<lparr>node := None\<rparr>) w))"
    using assms(2-4) by (subst onStatus_sa_state [where r = this]) (simp_all add: obj)
  have d_ex: "onStatus_ex h (JStr (id m)) (num MEDIA_STATE) (num MEDIA_STOPPED)
        (emits [Exec No_success (errorCallback m) ''MediaRec'' ''release'' [JStr (id m)]] w) =
        (Returned, emits (OnStatus (JStr (id m)) (num MEDIA_STATE) (num MEDIA_STOPPED)
           # invoked (statusCallback m) [num MEDIA_STOPPED] @ invoked (successCallback m) [])
           (emits [Exec No_success (errorCallback m) ''MediaRec'' ''release'' [JStr (id m)]] w))"
    using assms(2-4) m
    by (subst onStatus_ex_state [where r = this]) (simp_all add: num_def)
  have upd: "w\<lparr>objects := (objects w)[this := m\<lparr>node := None\<rparr>]\<rparr> =
      update_object this (\<lambda>m. m\<lparr>node := None\<rparr>) w"
    using m by (simp add: update_object_def)
  show ?thesis
    unfolding sa ex upd using d_sa d_ex by simp
qed

theorem release_keeps_registration_witness:
  "release_sa 0 example_world =
     (Returned, example_world\<lparr>objects := (objects example_world)[0 := example_handle\<lparr>node := None\<rparr>]\<rparr>)
   \<and> lookup_media example_host (snd (release_sa 0 example_world)) (JStr ''id-1'') = Some (Handle 0)
   \<and> lookup_media example_host (snd (release_ex 0 example_world)) (JStr ''id-1'') = Some (Handle 0)"
proof -
  have lk: "lookup_media example_host example_world (JStr (id example_handle)) = Some (Handle 0)"
    by (simp add: example_handle_fields example_lookup)
  have r1: "returns (statusCallback example_handle)" and r2: "returns (successCallback example_handle)"
    by (simp_all add: example_handle_fields returns_def)
  note T = release_keeps_registration [OF example_this lk r1 r2, of "JStr ''id-1''"]
  have A: "release_sa 0 example_world =
     (Returned, example_world\<lparr>objects := (objects example_world)[0 := example_handle\<lparr>node := None\<rparr>]\<rparr>)"
    using T by (rule conjunct1)
  have B: "lookup_media example_host (snd (release_sa 0 example_world)) (JStr ''id-1'') =
      lookup_media example_host example_world (JStr ''id-1'')"
    using T by blast
  have E: "lookup_media example_host (snd (release_ex 0 example_world)) (JStr ''id-1'') =
      lookup_media example_host example_world (JStr ''id-1'')"
    using T by blast
  show ?thesis
    by (intro conjI) (rule A, simp only: B example_lookup, simp only: E example_lookup)
qed

text \<open>
  C9. onMessageFromNative: a message whose action is 'status' dispatches the
  identifier, kind and value of its status object through onStatus; any other action
  throws the Unknown-media-action error and leaves the state as it was.
\<close>

theorem onMessageFromNative_actions:
  assumes "get_prop msg ''action'' = Inr a"
  shows "(a = JStr ''status'' \<longrightarrow> get_prop msg ''status'' = Inr (JObj fs) \<longrightarrow>
           onMessageFromNative h msg w =
             onStatus_ex h (case map_of fs ''id'' of Some v \<Rightarrow> v | None \<Rightarrow> JUndefined)
               (case map_of fs ''msgType'' of Some v \<Rightarrow> v | None \<Rightarrow> JUndefined)
               (case map_of fs ''value'' of Some v \<Rightarrow> v | None \<Rightarrow> JUndefined) w)
       \<and> (a \<noteq> JStr ''status'' \<longrightarrow>
           onMessageFromNative h msg w = (Thrown (Unknown_action h a), w))"
  using assms
  by (simp add: onMessageFromNative_def loose_eq_status_def split: option.splits)

theorem onMessageFromNative_actions_witness:
  "onMessageFromNative example_host (JObj [(''action'', JStr ''play'')]) example_world =
     (Thrown (Unknown_action example_host (JStr ''play'')), example_world)
   \<and> onMessageFromNative example_host
       (JObj [(''action'', JStr ''status''),
              (''status'', JObj [(''id'', JStr ''id-1''), (''msgType'', num 2), (''value'', num 5)])])
       example_world =
     onStatus_ex example_host (JStr ''id-1'') (num 2) (num 5) example_world"
  using onMessageFromNative_actions [where msg = "JObj [(''action'', JStr ''play'')]"
          and a = "JStr ''play''" and h = example_host and w = example_world]
        onMessageFromNative_actions [where msg = "JObj [(''action'', JStr ''status''),
              (''status'', JObj [(''id'', JStr ''id-1''), (''msgType'', num 2), (''value'', num 5)])]"
          and a = "JStr ''status''"
          and fs = "[(''id'', JStr ''id-1''), (''msgType'', num 2), (''value'', num 5)]"
          and h = example_host and w = example_world]
  by simp

text \<open>
  C10. The standalone constructor with a status callback: the handle is registered
  under its identifier, with duration and position -1, in the state in which the
  Starting event is dispatched; the callback is called with MEDIA_STARTING there, before
  the node is created, and the constructor's trace begins with that event and call.
\<close>

theorem constructor_emits_Starting:
  assumes "checkArgs ''SFFF'' args" and "nth_arg args 3 = JFun s t"
  shows "lookup_media h (register uuid args w) (JStr uuid) = Some (Handle (new_handle w))
    \<and> duration (objects (register uuid args w) ! new_handle w) = num (- 1)
    \<and> position (objects (register uuid args w) ! new_handle w) = num (- 1)
    \<and> MediaRec_sa h args uuid w =
        and_then
          (call_js (JFun s t) [num MEDIA_STARTING]
             (emit (OnStatus (JStr uuid) (num MEDIA_STATE) (num MEDIA_STARTING)) (register uuid args w)))
          (assign_node h (new_handle w))
    \<and> (\<exists>es. trace (snd (MediaRec_sa h args uuid w)) =
          trace w @ OnStatus (JStr uuid) (num MEDIA_STATE) (num MEDIA_STARTING)
            # Invoked s [num MEDIA_STARTING] # es)"
proof -
  let ?w1 = "register uuid args w"
  let ?w2 = "emits [OnStatus (JStr uuid) (num MEDIA_STATE) (num MEDIA_STARTING), Invoked s [num MEDIA_STARTING]] ?w1"
  have lk: "lookup_media h ?w1 (JStr uuid) = Some (Handle (new_handle w))"
    by (rule lookup_media_own) (simp add: own_handle_def key_of_def new_handle_def)
  have obj: "objects ?w1 ! new_handle w = construct uuid args"
    by (simp add: new_handle_def)
  have cb: "statusCallback (objects ?w1 ! new_handle w) = JFun s t"
    unfolding obj using assms(2) by (simp add: construct_def)
  have eq: "MediaRec_sa h args uuid w =
        and_then
          (call_js (JFun s t) [num MEDIA_STARTING]
             (emit (OnStatus (JStr uuid) (num MEDIA_STATE) (num MEDIA_STARTING)) ?w1))
          (assign_node h (new_handle w))"
    using assms(1) by (simp add: MediaRec_sa_def onStatus_sa_Starting [OF lk cb])
  have tr: "\<exists>es. trace (snd (MediaRec_sa h args uuid w)) =
          trace w @ OnStatus (JStr uuid) (num MEDIA_STATE) (num MEDIA_STARTING)
            # Invoked s [num MEDIA_STARTING] # es"
  proof (cases t)
    case (Some e)
    then show ?thesis by (simp add: eq and_then_def emit_emits)
  next
    case None
    obtain c w' where a: "assign_node h (new_handle w) ?w2 = (c, w')"
      by (cases "assign_node h (new_handle w) ?w2")
    from assign_node_trace [OF a] obtain es where "trace w' = trace ?w2 @ es" by blast
    with a None show ?thesis by (simp add: eq and_then_def emit_emits)
  qed
  have dp: "duration (objects ?w1 ! new_handle w) = num (- 1)"
    "position (objects ?w1 ! new_handle w) = num (- 1)"
    unfolding obj by (simp_all add: construct_def)
  show ?thesis using lk eq tr dp by blast
qed

theorem constructor_emits_Starting_witness:
  "lookup_media example_host (register ''id-1'' example_args empty_world) (JStr ''id-1'') = Some (Handle 0)
   \<and> (\<exists>es. trace (snd (MediaRec_sa example_host example_args ''id-1'' empty_world)) =
          OnStatus (JStr ''id-1'') (num MEDIA_STATE) (num MEDIA_STARTING)
            # Invoked ''status'' [num MEDIA_STARTING] # es)"
proof -
  have a3: "nth_arg example_args 3 = JFun ''status'' None"
    by (simp add: nth_arg_def example_args_def)
  note T = constructor_emits_Starting [OF example_checkArgs(1) a3, of example_host "''id-1''" empty_world]
  have A: "lookup_media example_host (register ''id-1'' example_args empty_world) (JStr ''id-1'') =
      Some (Handle (new_handle empty_world))"
    using T by (rule conjunct1)
  have E: "\<exists>es. trace (snd (MediaRec_sa example_host example_args ''id-1'' empty_world)) =
          trace empty_world @ OnStatus (JStr ''id-1'') (num MEDIA_STATE) (num MEDIA_STARTING)
            # Invoked ''status'' [num MEDIA_STARTING] # es"
    using T by blast
  have n: "new_handle empty_world = 0" "trace empty_world = []"
    by (simp_all add: new_handle_def empty_world_def)
  show ?thesis using A E unfolding n by simp
qed

end
